theory Spec2Isabelle
  imports Main
begin

section \<open>Python values\<close>

subsection \<open>Strings\<close>

text \<open>
  Python strings are sequences of code points; the model keeps the code points below 256
  (one \<^typ>\<open>char\<close> each). \<open>str.isspace\<close>, \<open>str.strip\<close> and \<open>str.lower\<close> are written
  out for that range.
\<close>

definition py_isspace :: "char \<Rightarrow> bool" where
  "py_isspace c =
     (let n = (of_char c :: nat)
      in (9 \<le> n \<and> n \<le> 13) \<or> (28 \<le> n \<and> n \<le> 32) \<or> n = 133 \<or> n = 160)"

definition lower_char :: "char \<Rightarrow> char" where
  "lower_char c =
     (let n = (of_char c :: nat)
      in if (65 \<le> n \<and> n \<le> 90) \<or> (192 \<le> n \<and> n \<le> 222 \<and> n \<noteq> 215)
         then char_of (n + 32) else c)"

definition py_strip :: "string \<Rightarrow> string" where
  "py_strip s = rev (dropWhile py_isspace (rev (dropWhile py_isspace s)))"

definition py_lower :: "string \<Rightarrow> string" where
  "py_lower s = map lower_char s"

fun py_join :: "string \<Rightarrow> string list \<Rightarrow> string" where
  "py_join sep [] = []"
| "py_join sep [x] = x"
| "py_join sep (x # y # ys) = x @ sep @ py_join sep (y # ys)"

text \<open>The apostrophe, for messages that quote a word.\<close>

definition apostrophe :: string where
  "apostrophe = [CHR 0x27]"

subsection \<open>Exceptions\<close>

datatype exn =
    ValueError string
  | RuntimeError string
  | AttributeError string
  | TypeError string
  | KeyError string
  | IndexError string
  | RequestException string
  | DatabaseError string
  | NameError string

text \<open>
  \<open>str(e)\<close> of an exception raised with one message argument. Where the interpreter
  raises (a missing attribute, a bad subscript), the model keeps the exception class and
  a short message in place of the interpreter's.
\<close>

fun str_exn :: "exn \<Rightarrow> string" where
  "str_exn (ValueError m) = m"
| "str_exn (RuntimeError m) = m"
| "str_exn (AttributeError m) = m"
| "str_exn (TypeError m) = m"
| "str_exn (KeyError m) = apostrophe @ m @ apostrophe"
| "str_exn (IndexError m) = m"
| "str_exn (RequestException m) = m"
| "str_exn (DatabaseError m) = m"
| "str_exn (NameError m) = m"

subsection \<open>Input rows\<close>

text \<open>
  One input row is a string-keyed dict whose values are strings or \<open>None\<close> (the
  onboarding form binds a missing form field to \<open>None\<close>). \<open>row_get\<close> is
  \<open>row.get(k)\<close>, \<open>field\<close> is \<open>row.get(k) or ""\<close>, and \<open>row_get_default\<close> is
  \<open>row.get(k, d)\<close>, which falls back to \<open>d\<close> only when the key is absent.
\<close>

type_synonym row = "string \<rightharpoonup> string option"

definition row_get :: "row \<Rightarrow> string \<Rightarrow> string option" where
  "row_get r k = (case r k of None \<Rightarrow> None | Some v \<Rightarrow> v)"

definition field :: "row \<Rightarrow> string \<Rightarrow> string" where
  "field r k = (case row_get r k of None \<Rightarrow> [] | Some v \<Rightarrow> v)"

definition row_get_default :: "row \<Rightarrow> string \<Rightarrow> string \<Rightarrow> string option" where
  "row_get_default r k d = (case r k of None \<Rightarrow> Some d | Some v \<Rightarrow> v)"

section \<open>handlers.py: the group name\<close>

definition construct_group_name :: "row \<Rightarrow> exn + string" where
  "construct_group_name r =
     (let env_raw = py_lower (py_strip (field r ''env''));
          is_prd = (env_raw \<in> {''prod'', ''production'', ''prd'', ''p''});
          env = (if is_prd then ''prod'' else ''nprod'');
          bu = py_strip (field r ''bu'');
          domain = py_strip (field r ''domain'');
          appName = py_strip (field r ''appName'');
          role = py_strip (field r ''role'')
      in if bu = ''Others'' \<and> py_strip (field r ''other_type'') = []
         then Inl (ValueError (''other_type is required when bu is '' @ apostrophe
                                 @ ''Others'' @ apostrophe))
         else
           let bu_value = (if bu = ''Others'' then py_strip (field r ''other_type'') else bu);
               parts = [env]
                 @ (if bu_value \<noteq> [] then [''TM'' @ bu_value] else [])
                 @ (if domain \<noteq> [] then [domain] else [])
                 @ (if appName \<noteq> [] then [appName] else [])
                 @ (if role \<noteq> [] then [role] else [])
           in Inr (py_join ''_'' parts))"

text \<open>
  The naming rule in the words of the specification, on the six values it names:
  the prefix from the environment, the override in place of the business unit
  \<open>Others\<close>, and the non-empty ones of the five parts joined in order.
\<close>

definition GroupName_spec ::
  "string \<Rightarrow> string \<Rightarrow> string \<Rightarrow> string \<Rightarrow> string \<Rightarrow> string \<Rightarrow> exn + string" where
  "GroupName_spec env bu other_type domain appName role =
     (let prefix = (if py_lower env \<in> {''prod'', ''production'', ''prd'', ''p''}
                    then ''prod'' else ''nprod'')
      in if bu = ''Others'' \<and> py_strip other_type = []
         then Inl (ValueError (''other_type is required when bu is '' @ apostrophe
                                 @ ''Others'' @ apostrophe))
         else
           let businessUnit = (if bu = ''Others'' then other_type else bu)
           in Inr (py_join ''_''
                 (filter (\<lambda>p. p \<noteq> []) [prefix, ''TM'' @ businessUnit, domain, appName, role])))"

text \<open>
  The rule as the code has it: every field is trimmed first, and the business-unit
  segment is present only for a non-empty business unit.
\<close>

definition GroupName_trimmed ::
  "string \<Rightarrow> string \<Rightarrow> string \<Rightarrow> string \<Rightarrow> string \<Rightarrow> string \<Rightarrow> exn + string" where
  "GroupName_trimmed env bu other_type domain appName role =
     (let prefix = (if py_lower (py_strip env) \<in> {''prod'', ''production'', ''prd'', ''p''}
                    then ''prod'' else ''nprod'')
      in if py_strip bu = ''Others'' \<and> py_strip other_type = []
         then Inl (ValueError (''other_type is required when bu is '' @ apostrophe
                                 @ ''Others'' @ apostrophe))
         else
           let businessUnit = (if py_strip bu = ''Others'' then py_strip other_type
                               else py_strip bu)
           in Inr (py_join ''_''
                 (filter (\<lambda>p. p \<noteq> [])
                    [prefix, if businessUnit = [] then [] else ''TM'' @ businessUnit,
                     py_strip domain, py_strip appName, py_strip role])))"

section \<open>The platform outside the repository\<close>

subsection \<open>JSON values\<close>

datatype json =
    JNull
  | JBool bool
  | JInt int
  | JStr string
  | JArr "json list"
  | JObj "(string \<times> json) list"

text \<open>Python truthiness of a decoded JSON value.\<close>

fun truthy :: "json \<Rightarrow> bool" where
  "truthy JNull = False"
| "truthy (JBool b) = b"
| "truthy (JInt i) = (i \<noteq> 0)"
| "truthy (JStr s) = (s \<noteq> [])"
| "truthy (JArr xs) = (xs \<noteq> [])"
| "truthy (JObj kvs) = (kvs \<noteq> [])"

text \<open>\<open>x or d\<close>.\<close>

definition py_or :: "json \<Rightarrow> json \<Rightarrow> json" where
  "py_or x d = (if truthy x then x else d)"

text \<open>\<open>d.get(k)\<close>: \<open>None\<close> for a missing key; only a dict has \<open>get\<close>.\<close>

fun dict_get :: "json \<Rightarrow> string \<Rightarrow> exn + json" where
  "dict_get (JObj kvs) k = Inr (case map_of kvs k of None \<Rightarrow> JNull | Some v \<Rightarrow> v)"
| "dict_get _ k = Inl (AttributeError ''get'')"

text \<open>\<open>xs[0]\<close> on a value already known to be truthy or not.\<close>

fun index0 :: "json \<Rightarrow> exn + json" where
  "index0 (JArr (x # xs)) = Inr x"
| "index0 (JArr []) = Inl (IndexError ''list index out of range'')"
| "index0 (JStr (c # cs)) = Inr (JStr [c])"
| "index0 (JStr []) = Inl (IndexError ''string index out of range'')"
| "index0 (JObj kvs) = Inl (KeyError ''0'')"
| "index0 _ = Inl (TypeError ''not subscriptable'')"

subsection \<open>Decimal numerals\<close>

fun str_nat :: "nat \<Rightarrow> string" where
  "str_nat n = (if n < 10 then [char_of (48 + n)]
                else str_nat (n div 10) @ [char_of (48 + n mod 10)])"

declare str_nat.simps [simp del]

definition str_int :: "int \<Rightarrow> string" where
  "str_int i = (if i < 0 then ''-'' @ str_nat (nat (- i)) else str_nat (nat i))"

subsection \<open>Requests, responses and the event log\<close>

text \<open>
  The keyword arguments the repository passes on to \<open>requests.request\<close>: \<open>params\<close>
  and \<open>json\<close>.
\<close>

record kwargs =
  params :: "(string \<times> string) list option"
  json :: "json option"

definition no_kwargs :: kwargs where
  "no_kwargs = \<lparr>params = None, json = None\<rparr>"

record request =
  req_method :: string
  req_url :: "string option"
  req_headers :: "(string \<times> string) list"
  req_timeout :: nat
  req_kwargs :: kwargs

text \<open>
  A response as the code reads it: the status, what \<open>resp.json()\<close> gives (\<open>None\<close>
  when it raises), and \<open>resp.text\<close>.
\<close>

record response =
  resp_status_code :: int
  resp_json :: "json option"
  resp_text :: string

text \<open>What one call of \<open>requests.request\<close> does: it returns a response or raises.\<close>

datatype attempt = Responded response | Raised exn

text \<open>One stored record: the thirteen columns, all text.\<close>

record audit_row =
  a_run_id :: string
  a_ts :: string
  a_admin :: string
  a_file_path :: string
  a_row_id :: string
  a_action :: string
  a_principal_type :: string
  a_principal_identifier :: string
  a_status :: string
  a_details :: string
  a_request_payload :: string
  a_response_code :: string
  a_response_body :: string

text \<open>
  The observable effects, in order: every request handed to the HTTP library, every
  \<open>time.sleep\<close>, and every record \<open>append_audit\<close> was called for.
\<close>

datatype event = Sent request | Slept nat | Audited audit_row

text \<open>The three kinds of statement the audit trail executes, by their effect.\<close>

datatype sql_statement = Create_table | Grant_all | Insert_row "string list"

text \<open>
  Everything the repository reaches but does not contain is a field of the platform:
  the configuration read from the process environment, the HTTP library and the remote
  API behind it, the token provider, the audit backends, the clock, and the library
  functions \<open>str\<close>, \<open>json.dumps\<close> and \<open>json.loads\<close>, with \<open>str.upper\<close> for the
  texts whose upper case leaves the modelled code points. What the outside answers may
  depend on everything that happened before, so each such field takes the event log.
\<close>

record platform =
  INSTANCE :: "string option"
  WORKSPACE_INSTANCE :: "string option"
  ACCOUNT :: "string option"
  AUDIT_MODE :: string
  is_databricks_env :: bool
  requests_request :: "event list \<Rightarrow> request \<Rightarrow> attempt"
  get_dbx_access_token :: "event list \<Rightarrow> exn + string"
  sql_execute_ok :: "event list \<Rightarrow> sql_statement \<Rightarrow> bool"
  file_write_ok :: "event list \<Rightarrow> bool"
  utcnow :: "event list \<Rightarrow> string"
  py_str :: "json \<Rightarrow> string"
  json_dumps :: "json \<Rightarrow> string"
  json_loads :: "string \<Rightarrow> exn + json"
  str_upper :: "string \<Rightarrow> string"

section \<open>databricks\_api.py: the request primitive\<close>

text \<open>The uniform return shape: a dict with \<open>status_code\<close>, \<open>body\<close> and, depending on
  the branch, \<open>error\<close> or \<open>message\<close>.\<close>

record outcome =
  status_code :: int
  body :: json
  error :: "string option"
  message :: "string option"

definition auth_headers :: "platform \<Rightarrow> event list \<Rightarrow> exn + (string \<times> string) list" where
  "auth_headers P h =
     (case get_dbx_access_token P h of
        Inl e \<Rightarrow> Inl e
      | Inr t \<Rightarrow> Inr [(''Authorization'', ''Bearer '' @ t),
                       (''Content-Type'', ''application/json'')])"

text \<open>\<open>f"{url}"\<close> of an optional string.\<close>

definition str_opt :: "string option \<Rightarrow> string" where
  "str_opt u = (case u of None \<Rightarrow> ''None'' | Some v \<Rightarrow> v)"

text \<open>The branch on \<open>resp.status_code\<close> inside the \<open>try\<close> of \<open>_safe_request\<close>.\<close>

definition outcome_of_response :: "string \<Rightarrow> string option \<Rightarrow> response \<Rightarrow> outcome" where
  "outcome_of_response method url resp =
     (if resp_status_code resp \<in> {200, 201} then
        (case resp_json resp of
           Some j \<Rightarrow> \<lparr>status_code = resp_status_code resp, body = j,
                      error = None, message = None\<rparr>
         | None \<Rightarrow> \<lparr>status_code = resp_status_code resp, body = JObj [],
                     error = None, message = Some ''Empty body''\<rparr>)
      else if resp_status_code resp = 204 then
        \<lparr>status_code = 204, body = JObj [], error = None, message = Some ''No content''\<rparr>
      else
        \<lparr>status_code = resp_status_code resp,
         body = (case resp_json resp of Some j \<Rightarrow> j
                 | None \<Rightarrow> JObj [(''error'', JStr (resp_text resp))]),
         error = Some (method @ '' '' @ str_opt url @ '' failed: ''
                        @ str_int (resp_status_code resp)),
         message = None\<rparr>)"

text \<open>
  The call inside the \<open>try\<close>: the headers are the given ones or, when those are absent
  or empty, freshly built ones; then the request goes out and is logged.
\<close>

definition try_request ::
  "platform \<Rightarrow> string \<Rightarrow> string option \<Rightarrow> (string \<times> string) list option \<Rightarrow> nat \<Rightarrow> kwargs
     \<Rightarrow> event list \<Rightarrow> attempt \<times> event list" where
  "try_request P method url headers timeout kw h =
     (case (case headers of
              Some hs \<Rightarrow> if hs \<noteq> [] then Inr hs else auth_headers P h
            | None \<Rightarrow> auth_headers P h) of
        Inl e \<Rightarrow> (Raised e, h)
      | Inr hs \<Rightarrow>
          let req = \<lparr>req_method = method, req_url = url, req_headers = hs,
                     req_timeout = timeout, req_kwargs = kw\<rparr>
          in (requests_request P h req, h @ [Sent req]))"

text \<open>
  The loop \<open>for attempt in range(1, retries + 1)\<close> with its running \<open>delay\<close>. Only a
  \<open>RequestException\<close> is caught; when the range is empty the function falls off its
  end and returns \<open>None\<close>.
\<close>

function safe_request_loop ::
  "platform \<Rightarrow> string \<Rightarrow> string option \<Rightarrow> nat \<Rightarrow> (string \<times> string) list option \<Rightarrow> nat
     \<Rightarrow> kwargs \<Rightarrow> nat \<Rightarrow> nat \<Rightarrow> event list \<Rightarrow> (exn + outcome option) \<times> event list" where
  "safe_request_loop P method url retries headers timeout kw attempt delay h =
     (if retries < attempt then (Inr None, h)
      else
        case try_request P method url headers timeout kw h of
          (Responded resp, h1) \<Rightarrow> (Inr (Some (outcome_of_response method url resp)), h1)
        | (Raised (RequestException e), h1) \<Rightarrow>
            if attempt = retries then
              (Inr (Some \<lparr>status_code = 0, body = JObj [],
                          error = Some (method @ '' '' @ str_opt url
                            @ '' network error after '' @ str_nat retries
                            @ '' attempts: '' @ e),
                          message = None\<rparr>), h1)
            else safe_request_loop P method url retries headers timeout kw
                   (attempt + 1) (delay * 2) (h1 @ [Slept delay])
        | (Raised e, h1) \<Rightarrow> (Inl e, h1))"
  by pat_completeness auto
termination
  by (relation "measure (\<lambda>(P, method, url, retries, headers, timeout, kw, attempt, delay, h).
                           retries + 1 - attempt)") auto

declare safe_request_loop.simps [simp del]

definition safe_request ::
  "platform \<Rightarrow> string \<Rightarrow> string option \<Rightarrow> nat \<Rightarrow> (string \<times> string) list option \<Rightarrow> nat
     \<Rightarrow> kwargs \<Rightarrow> event list \<Rightarrow> (exn + outcome option) \<times> event list" where
  "safe_request P method url retries headers timeout kw h =
     safe_request_loop P method url retries headers timeout kw 1 2 h"

section \<open>Auxiliary notions for the statements\<close>

text \<open>The requests sent, the delays slept and the records audited, read off an event log.\<close>

definition sent :: "event list \<Rightarrow> request list" where
  "sent h = [r. Sent r \<leftarrow> h]"

definition slept :: "event list \<Rightarrow> nat list" where
  "slept h = [d. Slept d \<leftarrow> h]"

definition audited :: "event list \<Rightarrow> audit_row list" where
  "audited h = [r. Audited r \<leftarrow> h]"

text \<open>
  A transport failure is a \<open>RequestException\<close> raised by the call; any other exception
  raised there is not caught by \<open>_safe_request\<close>.
\<close>

fun transport_failure :: "attempt \<Rightarrow> bool" where
  "transport_failure (Raised (RequestException e)) = True"
| "transport_failure _ = False"

fun other_failure :: "attempt \<Rightarrow> bool" where
  "other_failure (Responded r) = False"
| "other_failure (Raised (RequestException e)) = False"
| "other_failure (Raised e) = True"

text \<open>
  The event log at the start of attempt \<open>n + 1\<close> when each of the first \<open>n\<close> attempts was
  followed by a sleep: the first sleep lasts \<open>delay\<close>, each later one twice the one before.
\<close>

fun after_failures ::
  "platform \<Rightarrow> string \<Rightarrow> string option \<Rightarrow> (string \<times> string) list option \<Rightarrow> nat \<Rightarrow> kwargs
     \<Rightarrow> nat \<Rightarrow> event list \<Rightarrow> nat \<Rightarrow> event list" where
  "after_failures P method url headers timeout kw delay h 0 = h"
| "after_failures P method url headers timeout kw delay h (Suc n) =
     after_failures P method url headers timeout kw (delay * 2)
       (snd (try_request P method url headers timeout kw h) @ [Slept delay]) n"

subsection \<open>Scripted platforms for concrete runs\<close>

text \<open>
  A platform whose HTTP library answers the \<open>n\<close>-th request with the \<open>n\<close>-th entry of a
  script, and refuses the connection once the script is used up.
\<close>

definition script_transport :: "attempt list \<Rightarrow> event list \<Rightarrow> request \<Rightarrow> attempt" where
  "script_transport script h req =
     (let n = length (sent h)
      in if n < length script then script ! n
         else Raised (RequestException ''connection refused''))"

definition scripted :: "attempt list \<Rightarrow> platform" where
  "scripted script =
     \<lparr>INSTANCE = Some ''https://acct'', WORKSPACE_INSTANCE = Some ''https://ws'',
      ACCOUNT = Some ''a1'', AUDIT_MODE = ''file'', is_databricks_env = False,
      requests_request = script_transport script,
      get_dbx_access_token = (\<lambda>h. Inr ''t''),
      sql_execute_ok = (\<lambda>h q. False), file_write_ok = (\<lambda>h. True),
      utcnow = (\<lambda>h. ''2026-01-01T00:00:00''),
      py_str = (\<lambda>j. ''{}''), json_dumps = (\<lambda>j. ''{}''),
      json_loads = (\<lambda>s. Inl (ValueError ''Expecting value'')),
      str_upper = (\<lambda>s. s)\<rparr>"

definition timeout_twice_then_ok :: "attempt list" where
  "timeout_twice_then_ok =
     [Raised (RequestException ''timed out''), Raised (RequestException ''timed out''),
      Responded \<lparr>resp_status_code = 200, resp_json = Some (JObj [(''id'', JStr ''7'')]),
                 resp_text = []\<rparr>]"

definition accepted_202 :: "attempt list" where
  "accepted_202 =
     [Responded \<lparr>resp_status_code = 202, resp_json = Some (JObj [(''id'', JStr ''7'')]),
                 resp_text = []\<rparr>]"

definition get_u :: request where
  "get_u = \<lparr>req_method = ''GET'', req_url = Some ''u'',
            req_headers = [(''Authorization'', ''Bearer t''),
                           (''Content-Type'', ''application/json'')],
            req_timeout = 30, req_kwargs = no_kwargs\<rparr>"

text \<open>A platform whose token response lacks the \<open>access_token\<close> entry.\<close>

definition keyless_token :: platform where
  "keyless_token = (scripted [])\<lparr>get_dbx_access_token := (\<lambda>h. Inl (KeyError ''access_token''))\<rparr>"

text \<open>A platform with the structured audit store configured but failing every write.\<close>

definition delta_down :: platform where
  "delta_down = (scripted [])\<lparr>AUDIT_MODE := ''delta'', is_databricks_env := True\<rparr>"

section \<open>logger\_utils.py: the audit trail\<close>

text \<open>The ambient context \<open>_AUDIT_CONTEXT\<close>, every entry \<open>None\<close> until set.\<close>

record audit_context =
  ctx_run_id :: "string option"
  ctx_admin :: "string option"
  ctx_file_path :: "string option"
  ctx_row_id :: "int option"
  ctx_request_payload :: "json option"
  ctx_response_code :: "int option"
  ctx_response_body :: "json option"

definition empty_context :: audit_context where
  "empty_context =
     \<lparr>ctx_run_id = None, ctx_admin = None, ctx_file_path = None, ctx_row_id = None,
      ctx_request_payload = None, ctx_response_code = None, ctx_response_body = None\<rparr>"

text \<open>The flat file: absent, or a header line followed by the rows appended so far.\<close>

datatype csv_line = Header | Row audit_row

text \<open>
  The state the repository reads and writes: the event log, the audit context, the
  structured audit table and the audit file.
\<close>

record state =
  events :: "event list"
  audit_ctx :: audit_context
  delta_table :: "audit_row list"
  audit_file :: "csv_line list option"

definition initial_state :: state where
  "initial_state =
     \<lparr>events = [], audit_ctx = empty_context, delta_table = [], audit_file = None\<rparr>"

definition file_rows :: "csv_line list option \<Rightarrow> audit_row list" where
  "file_rows f = (case f of None \<Rightarrow> [] | Some ls \<Rightarrow> [r. Row r \<leftarrow> ls])"

text \<open>\<open>x or ""\<close> for an optional string.\<close>

definition or_empty :: "string option \<Rightarrow> string" where
  "or_empty x = (case x of None \<Rightarrow> [] | Some v \<Rightarrow> v)"

text \<open>\<open>explicit if explicit is not None else ctx.get(...)\<close>.\<close>

definition if_not_none :: "'a option \<Rightarrow> 'a option \<Rightarrow> 'a option" where
  "if_not_none explicit ambient = (case explicit of None \<Rightarrow> ambient | Some v \<Rightarrow> Some v)"

text \<open>The values of a record in column order, as the \<open>INSERT\<close> binds them.\<close>

definition row_values :: "audit_row \<Rightarrow> string list" where
  "row_values r =
     [a_run_id r, a_ts r, a_admin r, a_file_path r, a_row_id r, a_action r,
      a_principal_type r, a_principal_identifier r, a_status r, a_details r,
      a_request_payload r, a_response_code r, a_response_body r]"

text \<open>
  \<open>execute\<close> opens a connection and runs one statement; it raises when either step
  fails. Only an insert changes the table.
\<close>

definition execute :: "platform \<Rightarrow> sql_statement \<Rightarrow> audit_row list \<Rightarrow> state \<Rightarrow> exn + state" where
  "execute P q new_rows s =
     (if sql_execute_ok P (events s) q then Inr (s\<lparr>delta_table := delta_table s @ new_rows\<rparr>)
      else Inl (DatabaseError ''execute failed''))"

text \<open>
  \<open>ensure_audit_table_sql\<close> runs the \<open>CREATE TABLE IF NOT EXISTS\<close> and the \<open>GRANT\<close>.
  Its \<open>except\<close> clause lists \<open>AuthenticationError\<close>, a name the module never imports,
  so when either statement raises, matching the clause raises \<open>NameError\<close> in turn.
\<close>

definition ensure_audit_table_sql :: "platform \<Rightarrow> state \<Rightarrow> exn + state" where
  "ensure_audit_table_sql P s =
     (case execute P Create_table [] s of
        Inl e \<Rightarrow> Inl (NameError ''AuthenticationError'')
      | Inr s1 \<Rightarrow>
          (case execute P Grant_all [] s1 of
             Inl e \<Rightarrow> Inl (NameError ''AuthenticationError'')
           | Inr s2 \<Rightarrow> Inr s2))"

definition insert_audit_sql :: "platform \<Rightarrow> audit_row \<Rightarrow> state \<Rightarrow> exn + state" where
  "insert_audit_sql P r s = execute P (Insert_row (row_values r)) [r] s"

text \<open>
  \<open>_append_to_file\<close>: the header goes in front when the file does not exist yet; any
  exception is caught and reported as \<open>False\<close>.
\<close>

definition append_to_file :: "platform \<Rightarrow> audit_row \<Rightarrow> state \<Rightarrow> bool \<times> state" where
  "append_to_file P r s =
     (if file_write_ok P (events s) then
        (True, s\<lparr>audit_file :=
                   Some (case audit_file s of None \<Rightarrow> [Header, Row r]
                         | Some ls \<Rightarrow> ls @ [Row r])\<rparr>)
      else (False, s))"

text \<open>
  What \<open>append_audit\<close> may be handed as \<open>response_body\<close> or \<open>request_payload\<close>: a
  value \<open>json.dumps\<close> can write, or one it refuses, of which only the name of the
  offending type matters (a \<open>datetime\<close>, a pandas \<open>Timestamp\<close>).
\<close>

datatype pyobj = Json json | Opaque string

text \<open>\<open>json.dumps(v)\<close>, which raises \<open>TypeError\<close> on a value it cannot write.\<close>

definition dumps :: "platform \<Rightarrow> pyobj \<Rightarrow> exn + string" where
  "dumps P v =
     (case v of
        Json j \<Rightarrow> Inr (json_dumps P j)
      | Opaque t \<Rightarrow> Inl (TypeError (''Object of type '' @ t @ '' is not JSON serializable'')))"

text \<open>\<open>json.dumps(v) if v is not None else ""\<close>.\<close>

definition dumps_or_empty :: "platform \<Rightarrow> pyobj option \<Rightarrow> exn + string" where
  "dumps_or_empty P v = (case v of None \<Rightarrow> Inr [] | Some x \<Rightarrow> dumps P x)"

text \<open>
  The record \<open>append_audit\<close> builds from its arguments and the context. The entries of
  the dict are evaluated in order, so the request payload is written before the response
  body, and either \<open>json.dumps\<close> may raise. The context holds the row or form of the
  request, which is string-valued here, and so a JSON value.
\<close>

definition build_audit_row ::
  "platform \<Rightarrow> string \<Rightarrow> string \<Rightarrow> string \<Rightarrow> string \<Rightarrow> string \<Rightarrow> int option \<Rightarrow> pyobj option
     \<Rightarrow> pyobj option \<Rightarrow> state \<Rightarrow> exn + audit_row" where
  "build_audit_row P action principal_type identifier status details response_code response_body
       request_payload s =
     (let ctx = audit_ctx s;
          request_payload' = if_not_none request_payload
                               (map_option Json (ctx_request_payload ctx));
          response_code' = if_not_none response_code (ctx_response_code ctx);
          response_body' = if_not_none response_body
                             (map_option Json (ctx_response_body ctx))
      in case dumps_or_empty P request_payload' of
           Inl e \<Rightarrow> Inl e
         | Inr request_text \<Rightarrow>
             (case dumps_or_empty P response_body' of
                Inl e \<Rightarrow> Inl e
              | Inr response_text \<Rightarrow>
                  Inr \<lparr>a_run_id = or_empty (ctx_run_id ctx),
                       a_ts = utcnow P (events s) @ ''Z'',
                       a_admin = or_empty (ctx_admin ctx),
                       a_file_path = or_empty (ctx_file_path ctx),
                       a_row_id = (case ctx_row_id ctx of None \<Rightarrow> [] | Some i \<Rightarrow> str_int i),
                       a_action = action,
                       a_principal_type = principal_type,
                       a_principal_identifier = identifier,
                       a_status = status,
                       a_details = details,
                       a_request_payload = request_text,
                       a_response_code = (case response_code' of None \<Rightarrow> []
                                          | Some c \<Rightarrow> str_int c),
                       a_response_body = response_text\<rparr>))"

text \<open>
  The storing part of \<open>append_audit\<close>: with the structured store configured, any
  exception of the two calls in the \<open>try\<close> hands the record to the file; the result of
  the file write is dropped.
\<close>

definition store_audit_row :: "platform \<Rightarrow> audit_row \<Rightarrow> state \<Rightarrow> state" where
  "store_audit_row P r s =
     (if AUDIT_MODE P = ''delta'' \<and> is_databricks_env P then
        (case ensure_audit_table_sql P s of
           Inl e \<Rightarrow> snd (append_to_file P r s)
         | Inr s1 \<Rightarrow>
             (case insert_audit_sql P r s1 of
                Inl e \<Rightarrow> snd (append_to_file P r s)
              | Inr s2 \<Rightarrow> s2))
      else snd (append_to_file P r s))"

text \<open>
  \<open>append_audit\<close> builds the record, which may raise, and then stores it, which may
  not: the record is built before the \<open>try\<close>. The event log notes the record the call
  was made for, whether or not a backend took it.
\<close>

definition append_audit ::
  "platform \<Rightarrow> string \<Rightarrow> string \<Rightarrow> string \<Rightarrow> string \<Rightarrow> string \<Rightarrow> int option \<Rightarrow> pyobj option
     \<Rightarrow> pyobj option \<Rightarrow> state \<Rightarrow> exn + state" where
  "append_audit P action principal_type identifier status details response_code response_body
       request_payload s =
     (case build_audit_row P action principal_type identifier status details response_code
             response_body request_payload s of
        Inl e \<Rightarrow> Inl e
      | Inr r \<Rightarrow>
          let s' = store_audit_row P r s
          in Inr (s'\<lparr>events := events s' @ [Audited r]\<rparr>))"

text \<open>
  The calls the operations make. Every payload and response they pass is a dict, a list
  or a string built from strings and decoded responses, a JSON value; on those
  \<open>json.dumps\<close> returns, and so does the call. \<open>audit_row_json\<close> is the record then
  built and \<open>append_audit_json\<close> the state then reached.
\<close>

definition json_text :: "platform \<Rightarrow> json option \<Rightarrow> string" where
  "json_text P v = (case v of None \<Rightarrow> [] | Some j \<Rightarrow> json_dumps P j)"

definition audit_row_json ::
  "platform \<Rightarrow> string \<Rightarrow> string \<Rightarrow> string \<Rightarrow> string \<Rightarrow> string \<Rightarrow> int option \<Rightarrow> json option
     \<Rightarrow> json option \<Rightarrow> state \<Rightarrow> audit_row" where
  "audit_row_json P action principal_type identifier status details response_code response_body
       request_payload s =
     (let ctx = audit_ctx s
      in \<lparr>a_run_id = or_empty (ctx_run_id ctx),
          a_ts = utcnow P (events s) @ ''Z'',
          a_admin = or_empty (ctx_admin ctx),
          a_file_path = or_empty (ctx_file_path ctx),
          a_row_id = (case ctx_row_id ctx of None \<Rightarrow> [] | Some i \<Rightarrow> str_int i),
          a_action = action,
          a_principal_type = principal_type,
          a_principal_identifier = identifier,
          a_status = status,
          a_details = details,
          a_request_payload =
            json_text P (if_not_none request_payload (ctx_request_payload ctx)),
          a_response_code =
            (case if_not_none response_code (ctx_response_code ctx) of
               None \<Rightarrow> [] | Some c \<Rightarrow> str_int c),
          a_response_body =
            json_text P (if_not_none response_body (ctx_response_body ctx))\<rparr>)"

definition append_audit_json ::
  "platform \<Rightarrow> string \<Rightarrow> string \<Rightarrow> string \<Rightarrow> string \<Rightarrow> string \<Rightarrow> int option \<Rightarrow> json option
     \<Rightarrow> json option \<Rightarrow> state \<Rightarrow> state" where
  "append_audit_json P action principal_type identifier status details response_code
       response_body request_payload s =
     (let r = audit_row_json P action principal_type identifier status details response_code
                response_body request_payload s;
          s' = store_audit_row P r s
      in s'\<lparr>events := events s' @ [Audited r]\<rparr>)"

text \<open>Whether the whole write to the structured store goes through.\<close>

definition primary_write_ok :: "platform \<Rightarrow> event list \<Rightarrow> audit_row \<Rightarrow> bool" where
  "primary_write_ok P h r =
     (sql_execute_ok P h Create_table \<and> sql_execute_ok P h Grant_all
      \<and> sql_execute_ok P h (Insert_row (row_values r)))"

text \<open>The call with only the five positional arguments.\<close>

definition audit ::
  "platform \<Rightarrow> string \<Rightarrow> string \<Rightarrow> string \<Rightarrow> string \<Rightarrow> string \<Rightarrow> state \<Rightarrow> state" where
  "audit P action principal_type identifier status details s =
     append_audit_json P action principal_type identifier status details None None None s"

section \<open>databricks\_api.py: the resource client\<close>

definition FAST_TIMEOUT_SECS :: nat where
  "FAST_TIMEOUT_SECS = 12"

definition FAST_RETRIES :: nat where
  "FAST_RETRIES = 2"

text \<open>Running a function of the event log inside the state.\<close>

definition on_events :: "(event list \<Rightarrow> 'a \<times> event list) \<Rightarrow> state \<Rightarrow> 'a \<times> state" where
  "on_events f s = (case f (events s) of (x, h) \<Rightarrow> (x, s\<lparr>events := h\<rparr>))"

definition rstrip_slash :: "string \<Rightarrow> string" where
  "rstrip_slash s = rev (dropWhile (\<lambda>c. c = CHR ''/'') (rev s))"

text \<open>\<open>_url\<close>: \<open>INSTANCE.rstrip("/") + path\<close>, which fails on an unset \<open>INSTANCE\<close>.\<close>

definition url_of :: "platform \<Rightarrow> string \<Rightarrow> exn + string" where
  "url_of P path =
     (case INSTANCE P of
        None \<Rightarrow> Inl (AttributeError ''rstrip'')
      | Some i \<Rightarrow> Inr (rstrip_slash i @ path))"

text \<open>\<open>_ws_url\<close>: \<open>None\<close> when neither base URL is set to a non-empty string.\<close>

definition ws_url :: "platform \<Rightarrow> string \<Rightarrow> string option" where
  "ws_url P path =
     (let base = (case WORKSPACE_INSTANCE P of
                    Some w \<Rightarrow> if w \<noteq> [] then Some w else INSTANCE P
                  | None \<Rightarrow> INSTANCE P)
      in case base of
           None \<Rightarrow> None
         | Some b \<Rightarrow> if b = [] then None else Some (rstrip_slash b @ path))"

text \<open>A value inside an f-string: a string as it is, \<open>None\<close> as \<open>None\<close>, others by \<open>str\<close>.\<close>

definition fmt :: "platform \<Rightarrow> json \<Rightarrow> string" where
  "fmt P j = (case j of JStr s \<Rightarrow> s | JNull \<Rightarrow> ''None'' | _ \<Rightarrow> py_str P j)"

definition users_path :: "platform \<Rightarrow> string" where
  "users_path P = ''/api/2.1/accounts/'' @ str_opt (ACCOUNT P) @ ''/scim/v2/Users''"

definition groups_path :: "platform \<Rightarrow> string" where
  "groups_path P = ''/api/2.1/accounts/'' @ str_opt (ACCOUNT P) @ ''/scim/v2/Groups''"

text \<open>
  The account-level SCIM calls share one shape: build the URL (which may raise), then
  \<open>_safe_request\<close> with the short timeout and retry count and no explicit headers.
\<close>

definition scim_call ::
  "platform \<Rightarrow> string \<Rightarrow> string \<Rightarrow> kwargs \<Rightarrow> state \<Rightarrow> (exn + outcome option) \<times> state" where
  "scim_call P meth path kw s =
     (case url_of P path of
        Inl e \<Rightarrow> (Inl e, s)
      | Inr u \<Rightarrow>
          on_events (safe_request P meth (Some u) FAST_RETRIES None FAST_TIMEOUT_SECS kw) s)"

text \<open>\<open>params = {"filter": filter_} if filter_ else None\<close>.\<close>

definition filter_params :: "string option \<Rightarrow> (string \<times> string) list option" where
  "filter_params f =
     (case f of None \<Rightarrow> None | Some v \<Rightarrow> if v = [] then None else Some [(''filter'', v)])"

definition scim_list_users ::
  "platform \<Rightarrow> string option \<Rightarrow> state \<Rightarrow> (exn + outcome option) \<times> state" where
  "scim_list_users P flt s =
     scim_call P ''GET'' (users_path P) \<lparr>params = filter_params flt, json = None\<rparr> s"

definition scim_create_user ::
  "platform \<Rightarrow> json \<Rightarrow> state \<Rightarrow> (exn + outcome option) \<times> state" where
  "scim_create_user P payload s =
     scim_call P ''POST'' (users_path P) \<lparr>params = None, json = Some payload\<rparr> s"

definition scim_patch_user ::
  "platform \<Rightarrow> json \<Rightarrow> json \<Rightarrow> state \<Rightarrow> (exn + outcome option) \<times> state" where
  "scim_patch_user P user_id patch_ops s =
     scim_call P ''PATCH'' (users_path P @ ''/'' @ fmt P user_id)
       \<lparr>params = None, json = Some patch_ops\<rparr> s"

definition scim_delete_user ::
  "platform \<Rightarrow> json \<Rightarrow> state \<Rightarrow> (exn + outcome option) \<times> state" where
  "scim_delete_user P user_id s =
     scim_call P ''DELETE'' (users_path P @ ''/'' @ fmt P user_id) no_kwargs s"

definition scim_list_groups ::
  "platform \<Rightarrow> string option \<Rightarrow> state \<Rightarrow> (exn + outcome option) \<times> state" where
  "scim_list_groups P flt s =
     scim_call P ''GET'' (groups_path P) \<lparr>params = filter_params flt, json = None\<rparr> s"

definition scim_create_group ::
  "platform \<Rightarrow> json \<Rightarrow> state \<Rightarrow> (exn + outcome option) \<times> state" where
  "scim_create_group P payload s =
     scim_call P ''POST'' (groups_path P) \<lparr>params = None, json = Some payload\<rparr> s"

definition scim_patch_group ::
  "platform \<Rightarrow> json \<Rightarrow> json \<Rightarrow> state \<Rightarrow> (exn + outcome option) \<times> state" where
  "scim_patch_group P group_id patch_ops s =
     scim_call P ''PATCH'' (groups_path P @ ''/'' @ fmt P group_id)
       \<lparr>params = None, json = Some patch_ops\<rparr> s"

subsection \<open>Workspace lookups\<close>

text \<open>
  The workspace-level calls build their headers at the call site, where a failing token
  provider raises to the caller, and then go through \<open>_safe_request\<close>.
\<close>

definition ws_call ::
  "platform \<Rightarrow> string \<Rightarrow> string \<Rightarrow> kwargs \<Rightarrow> state \<Rightarrow> (exn + outcome option) \<times> state" where
  "ws_call P meth path kw s =
     (case auth_headers P (events s) of
        Inl e \<Rightarrow> (Inl e, s)
      | Inr hs \<Rightarrow>
          on_events (safe_request P meth (ws_url P path) FAST_RETRIES (Some hs)
                       FAST_TIMEOUT_SECS kw) s)"

text \<open>The outcome dict as a value, for \<open>str\<close> and for the audit trail.\<close>

definition outcome_json :: "outcome \<Rightarrow> json" where
  "outcome_json r =
     JObj ([(''status_code'', JInt (status_code r)), (''body'', body r)]
           @ (case message r of None \<Rightarrow> [] | Some m \<Rightarrow> [(''message'', JStr m)])
           @ (case error r of None \<Rightarrow> [] | Some e \<Rightarrow> [(''error'', JStr e)]))"

text \<open>\<open>api_response.get("error") or str(response_body)\<close>.\<close>

definition error_msg_of :: "platform \<Rightarrow> outcome \<Rightarrow> string" where
  "error_msg_of P r =
     (case error r of
        Some e \<Rightarrow> if e \<noteq> [] then e else py_str P (body r)
      | None \<Rightarrow> py_str P (body r))"

text \<open>\<open>d.get(k, default)\<close>: the default only for a missing key.\<close>

fun dict_get_default :: "json \<Rightarrow> string \<Rightarrow> json \<Rightarrow> exn + json" where
  "dict_get_default (JObj kvs) k d = Inr (case map_of kvs k of None \<Rightarrow> d | Some v \<Rightarrow> v)"
| "dict_get_default _ k d = Inl (AttributeError ''get'')"

text \<open>What a \<open>for\<close> loop iterates over.\<close>

fun py_iter :: "json \<Rightarrow> exn + json list" where
  "py_iter (JArr xs) = Inr xs"
| "py_iter (JStr s) = Inr (map (\<lambda>c. JStr [c]) s)"
| "py_iter (JObj kvs) = Inr (map (\<lambda>kv. JStr (fst kv)) kvs)"
| "py_iter _ = Inl (TypeError ''not iterable'')"

text \<open>
  The search loop of the three lookups: the first entry whose \<open>name_key\<close> equals the
  wanted name gives its \<open>id_key\<close>; \<open>None\<close> when no entry matches.
\<close>

fun find_named :: "string \<Rightarrow> string \<Rightarrow> string \<Rightarrow> json list \<Rightarrow> exn + json" where
  "find_named name_key id_key name [] = Inr JNull"
| "find_named name_key id_key name (x # xs) =
     (case dict_get x name_key of
        Inl e \<Rightarrow> Inl e
      | Inr n \<Rightarrow> if n = JStr name then dict_get x id_key
                 else find_named name_key id_key name xs)"

text \<open>
  The common part of \<open>get_policy_id\<close>, \<open>get_cluster_id\<close> and
  \<open>get_sql_warehouse_id\<close>: list, insist on status 200, search the listing.
\<close>

definition lookup_listing ::
  "platform \<Rightarrow> string \<Rightarrow> string \<Rightarrow> string \<Rightarrow> string \<Rightarrow> string \<Rightarrow> string \<Rightarrow> state
     \<Rightarrow> (exn + json) \<times> state" where
  "lookup_listing P path failure list_key name_key id_key name s =
     (case ws_call P ''GET'' path no_kwargs s of
        (Inl e, s1) \<Rightarrow> (Inl e, s1)
      | (Inr None, s1) \<Rightarrow> (Inl (AttributeError ''get''), s1)
      | (Inr (Some r), s1) \<Rightarrow>
          if status_code r \<noteq> 200
          then (Inl (RuntimeError (failure @ error_msg_of P r)), s1)
          else
            (case dict_get_default (body r) list_key (JArr []) of
               Inl e \<Rightarrow> (Inl e, s1)
             | Inr listing \<Rightarrow>
                 (case py_iter listing of
                    Inl e \<Rightarrow> (Inl e, s1)
                  | Inr xs \<Rightarrow> (find_named name_key id_key name xs, s1))))"


definition get_cluster_id :: "platform \<Rightarrow> string \<Rightarrow> state \<Rightarrow> (exn + json) \<times> state" where
  "get_cluster_id P cluster_name s =
     lookup_listing P ''/api/2.0/clusters/list''
       ''Failed to retrieve cluster list. API Error: ''
       ''clusters'' ''cluster_name'' ''cluster_id'' cluster_name s"


subsection \<open>Compute provisioning\<close>

text \<open>
  \<open>repr(s)\<close> for a string, as the message of \<open>int\<close> quotes it: apostrophes around
  it, or double quotes when it holds an apostrophe and no double quote; the backslash
  and the quote in use are escaped, tab, newline and carriage return are written
  \<open>\t\<close>, \<open>\n\<close>, \<open>\r\<close>, and every other code point that is not printable (below
  32, from 127 to 160, and 173) is written \<open>\xhh\<close>.
\<close>

definition backslash :: char where
  "backslash = CHR 0x5C"

definition hex_digit :: "nat \<Rightarrow> char" where
  "hex_digit n = (if n < 10 then char_of (48 + n) else char_of (87 + n))"

definition repr_char :: "char \<Rightarrow> char \<Rightarrow> string" where
  "repr_char quote c =
     (let n = (of_char c :: nat)
      in if c = backslash \<or> c = quote then [backslash, c]
         else if n = 9 then [backslash, CHR ''t'']
         else if n = 10 then [backslash, CHR ''n'']
         else if n = 13 then [backslash, CHR ''r'']
         else if n < 32 \<or> (127 \<le> n \<and> n \<le> 160) \<or> n = 173
           then [backslash, CHR ''x'', hex_digit (n div 16), hex_digit (n mod 16)]
         else [c])"

definition py_repr :: "string \<Rightarrow> string" where
  "py_repr s =
     (let quote = (if CHR 0x27 \<in> set s \<and> CHR 0x22 \<notin> set s then CHR 0x22 else CHR 0x27)
      in [quote] @ concat (map (repr_char quote) s) @ [quote])"

text \<open>
  \<open>int(s)\<close> for a string: surrounding whitespace, an optional sign, then decimal digits
  with single underscores allowed between them. The whitespace \<open>int\<close> skips is
  narrower than that of \<open>str.strip\<close>: the separators 28 to 31 are not part of it. A
  run of more than 4300 digits is refused, the interpreter's default limit, before
  what follows the run is looked at. The message of the other refusals quotes the
  argument by its \<open>repr\<close>, cut at 200 characters.
\<close>

definition is_digit :: "char \<Rightarrow> bool" where
  "is_digit c = (48 \<le> (of_char c :: nat) \<and> (of_char c :: nat) \<le> 57)"

definition int_space :: "char \<Rightarrow> bool" where
  "int_space c =
     (let n = (of_char c :: nat)
      in (9 \<le> n \<and> n \<le> 13) \<or> n = 32 \<or> n = 133 \<or> n = 160)"

fun well_grouped :: "string \<Rightarrow> bool" where
  "well_grouped [] = False"
| "well_grouped [c] = is_digit c"
| "well_grouped (c # d # cs) =
     (if is_digit c then well_grouped (d # cs)
      else c = CHR ''_'' \<and> is_digit d \<and> well_grouped (d # cs))"

definition digits_value :: "string \<Rightarrow> nat" where
  "digits_value ds = foldl (\<lambda>acc c. 10 * acc + (of_char c - 48)) 0 ds"

definition py_int :: "string \<Rightarrow> exn + int" where
  "py_int s =
     (let t = rev (dropWhile int_space (rev (dropWhile int_space s)));
          negative = (t \<noteq> [] \<and> hd t = CHR ''-'');
          ds = (if t \<noteq> [] \<and> (hd t = CHR ''-'' \<or> hd t = CHR ''+'') then tl t else t);
          run = takeWhile (\<lambda>c. is_digit c \<or> c = CHR ''_'') ds;
          digits = filter is_digit run;
          invalid = Inl (ValueError (''invalid literal for int() with base 10: ''
                                       @ take 200 (py_repr s)))
      in if run = [] \<or> \<not> is_digit (hd run) \<or> \<not> well_grouped run then invalid
         else if 4300 < length digits
           then Inl (ValueError
                  (''Exceeds the limit (4300 digits) for integer string conversion: ''
                   @ ''value has '' @ str_nat (length digits)
                   @ '' digits; use sys.set_int_max_str_digits() to increase the limit''))
         else if run \<noteq> ds then invalid
         else Inr ((if negative then - 1 else 1) * int (digits_value digits)))"

text \<open>\<open>int(base_workers or 1)\<close>.\<close>

definition workers_of :: "string option \<Rightarrow> exn + int" where
  "workers_of base_workers =
     (case base_workers of
        None \<Rightarrow> Inr 1
      | Some w \<Rightarrow> if w = [] then Inr 1 else py_int w)"

text \<open>\<open>d[k]\<close> for a string key.\<close>

fun subscript :: "json \<Rightarrow> string \<Rightarrow> exn + json" where
  "subscript (JObj kvs) k = (case map_of kvs k of None \<Rightarrow> Inl (KeyError k) | Some v \<Rightarrow> Inr v)"
| "subscript _ k = Inl (TypeError ''indices must be integers'')"

definition opt_str :: "string option \<Rightarrow> json" where
  "opt_str x = (case x of None \<Rightarrow> JNull | Some v \<Rightarrow> JStr v)"

definition cluster_payload ::
  "string \<Rightarrow> json \<Rightarrow> string \<Rightarrow> int \<Rightarrow> (string \<times> json) list \<Rightarrow> json" where
  "cluster_payload application_name policy_id node_type_id workers project_tags =
     JObj [(''cluster_name'', JStr application_name),
           (''cluster_type'', JStr ''all-purpose''),
           (''spark_version'', JStr ''16.4.x-scala2.12''),
           (''node_type_id'', JStr node_type_id),
           (''driver_node_type_id'', JStr node_type_id),
           (''autotermination_minutes'', JInt 10),
           (''autoscale'', JObj [(''min_workers'', JInt (max 1 workers)),
                                 (''max_workers'', JInt (max 2 (workers * 2)))]),
           (''custom_tags'', JObj project_tags),
           (''data_security_mode'', JStr ''USER_ISOLATION''),
           (''policy_id'', policy_id)]"

text \<open>
  \<open>create_all_purpose_cluster\<close>: headers, URL and payload are built, then one
  \<open>requests.post\<close> goes out directly, outside \<open>_safe_request\<close>: no lookup comes
  first and an exception of the HTTP library reaches the caller.
\<close>

definition create_all_purpose_cluster ::
  "platform \<Rightarrow> string \<Rightarrow> json \<Rightarrow> string \<Rightarrow> string option \<Rightarrow> string \<Rightarrow> (string \<times> json) list
     \<Rightarrow> state \<Rightarrow> (exn + json) \<times> state" where
  "create_all_purpose_cluster P application_name policy_id node_type_id base_workers
       environment project_tags s =
     (case auth_headers P (events s) of
        Inl e \<Rightarrow> (Inl e, s)
      | Inr hs \<Rightarrow>
          (case workers_of base_workers of
             Inl e \<Rightarrow> (Inl e, s)
           | Inr workers \<Rightarrow>
               let req = \<lparr>req_method = ''POST'',
                          req_url = ws_url P ''/api/2.0/clusters/create'',
                          req_headers = hs, req_timeout = 30,
                          req_kwargs = \<lparr>params = None,
                            json = Some (cluster_payload application_name policy_id
                                           node_type_id workers project_tags)\<rparr>\<rparr>;
                   s1 = s\<lparr>events := events s @ [Sent req]\<rparr>
               in (case requests_request P (events s) req of
                     Raised e \<Rightarrow> (Inl e, s1)
                   | Responded resp \<Rightarrow>
                       if resp_status_code resp = 200 then
                         (case resp_json resp of
                            None \<Rightarrow> (Inl (ValueError ''Expecting value''), s1)
                          | Some j \<Rightarrow> (subscript j ''cluster_id'', s1))
                       else (Inl (RuntimeError (''Cluster creation failed: '' @ resp_text resp)),
                             s1))))"



section \<open>handlers.py: the operations\<close>

definition dquote :: string where
  "dquote = [CHR 0x22]"

subsection \<open>Member lists\<close>

text \<open>\<open>s.split(c)\<close> for a one-character separator.\<close>

fun split_on :: "char \<Rightarrow> string \<Rightarrow> string list" where
  "split_on c [] = [[]]"
| "split_on c (x # xs) =
     (if x = c then [] # split_on c xs
      else (case split_on c xs of
              [] \<Rightarrow> [[x]]
            | y # ys \<Rightarrow> (x # y) # ys))"

definition split_clean :: "char \<Rightarrow> string \<Rightarrow> string list" where
  "split_clean sep csv =
     map (\<lambda>p. py_lower (py_strip p)) (filter (\<lambda>p. py_strip p \<noteq> []) (split_on sep csv))"

text \<open>\<open>_split_members\<close>: the comma is tried before the semicolon.\<close>

definition split_members :: "string \<Rightarrow> string list" where
  "split_members members_csv =
     (if members_csv = [] then []
      else let csv = py_strip members_csv
           in if CHR '','' \<in> set csv then split_clean (CHR '','') csv
              else if CHR '';'' \<in> set csv then split_clean (CHR '';'') csv
              else if csv \<noteq> [] then [py_lower csv] else [])"

subsection \<open>Directory lookups\<close>

text \<open>
  What a listing response yields: nothing when the response is missing or not a 200,
  else the first entry of \<open>(body or {}).get("Resources") or []\<close> if that is non-empty.
\<close>

definition first_resource :: "outcome option \<Rightarrow> exn + json option" where
  "first_resource resp =
     (case resp of
        None \<Rightarrow> Inr None
      | Some r \<Rightarrow>
          if status_code r \<noteq> 200 then Inr None
          else
            (case dict_get (py_or (body r) (JObj [])) ''Resources'' of
               Inl e \<Rightarrow> Inl e
             | Inr rs \<Rightarrow>
                 let resources = py_or rs (JArr [])
                 in if truthy resources
                    then (case index0 resources of Inl e \<Rightarrow> Inl e | Inr x \<Rightarrow> Inr (Some x))
                    else Inr None))"

text \<open>
  \<open>_find_user_by_email\<close>: by \<open>userName\<close>, then by \<open>emails.value\<close>. Every exception
  inside becomes \<open>None\<close>.
\<close>

definition find_user_by_email :: "platform \<Rightarrow> string \<Rightarrow> state \<Rightarrow> json \<times> state" where
  "find_user_by_email P email s =
     (if email = [] then (JNull, s)
      else
        case scim_list_users P (Some (''userName eq '' @ dquote @ email @ dquote)) s of
          (Inl e, s1) \<Rightarrow> (JNull, s1)
        | (Inr resp, s1) \<Rightarrow>
            (case first_resource resp of
               Inl e \<Rightarrow> (JNull, s1)
             | Inr (Some u) \<Rightarrow> (u, s1)
             | Inr None \<Rightarrow>
                 (case scim_list_users P
                         (Some (''emails.value eq '' @ dquote @ email @ dquote)) s1 of
                    (Inl e, s2) \<Rightarrow> (JNull, s2)
                  | (Inr resp_alt, s2) \<Rightarrow>
                      (case first_resource resp_alt of
                         Inl e \<Rightarrow> (JNull, s2)
                       | Inr (Some u) \<Rightarrow> (u, s2)
                       | Inr None \<Rightarrow> (JNull, s2)))))"

definition get_user_id_by_email :: "platform \<Rightarrow> string \<Rightarrow> state \<Rightarrow> (exn + json) \<times> state" where
  "get_user_id_by_email P email s =
     (case find_user_by_email P (py_lower (py_strip email)) s of
        (u, s1) \<Rightarrow> ((if truthy u then dict_get u ''id'' else Inr JNull), s1))"

definition find_group_by_display_name :: "platform \<Rightarrow> string \<Rightarrow> state \<Rightarrow> json \<times> state" where
  "find_group_by_display_name P display_name s =
     (if display_name = [] then (JNull, s)
      else
        case scim_list_groups P (Some (''displayName eq '' @ dquote @ display_name @ dquote)) s of
          (Inl e, s1) \<Rightarrow> (JNull, s1)
        | (Inr resp, s1) \<Rightarrow>
            (case first_resource resp of
               Inl e \<Rightarrow> (JNull, s1)
             | Inr (Some g) \<Rightarrow> (g, s1)
             | Inr None \<Rightarrow> (JNull, s1)))"

subsection \<open>Users\<close>

text \<open>The dict \<open>ensure_user\<close> returns.\<close>

record ensure_result =
  er_existed :: bool
  er_id :: json
  er_resp :: "outcome option"
  er_error :: "string option"

text \<open>\<open>display.split(" ", 1)\<close> into given and family name.\<close>

definition split_name :: "string \<Rightarrow> string \<times> string" where
  "split_name display =
     (takeWhile (\<lambda>c. c \<noteq> CHR '' '') display,
      (case dropWhile (\<lambda>c. c \<noteq> CHR '' '') display of [] \<Rightarrow> [] | c # rest \<Rightarrow> rest))"

definition user_payload :: "string \<Rightarrow> string \<Rightarrow> json" where
  "user_payload email_norm display =
     JObj [(''schemas'', JArr [JStr ''urn:ietf:params:scim:schemas:core:2.0:User'']),
           (''userName'', JStr email_norm),
           (''name'', JObj [(''givenName'', JStr (fst (split_name display))),
                            (''familyName'', JStr (snd (split_name display))),
                            (''formatted'', JStr display)]),
           (''emails'', JArr [JObj [(''value'', JStr email_norm), (''primary'', JBool True)]]),
           (''active'', JBool True)]"

text \<open>
  The checks between a create call and its \<open>SUCCESS\<close> record: the status must be 200
  or 201, and the id is read from \<open>body or {}\<close>.
\<close>

definition created_id :: "platform \<Rightarrow> outcome option \<Rightarrow> exn + json" where
  "created_id P resp =
     (case resp of
        None \<Rightarrow> Inl (AttributeError ''get'')
      | Some r \<Rightarrow>
          if status_code r \<notin> {200, 201} then Inl (RuntimeError (py_str P (body r)))
          else dict_get (py_or (body r) (JObj [])) ''id'')"

definition resp_code :: "outcome option \<Rightarrow> int option" where
  "resp_code resp = map_option status_code resp"

definition resp_value :: "outcome option \<Rightarrow> json option" where
  "resp_value resp = map_option outcome_json resp"

definition ensure_user ::
  "platform \<Rightarrow> string \<Rightarrow> string option \<Rightarrow> state \<Rightarrow> (exn + ensure_result) \<times> state" where
  "ensure_user P email display_name s =
     (let email_norm = py_lower (py_strip email)
      in if email_norm = [] then
           (Inr \<lparr>er_existed = False, er_id = JNull, er_resp = None,
                 er_error = Some ''no_email_provided''\<rparr>, s)
         else
           case find_user_by_email P email_norm s of
             (existing, s1) \<Rightarrow>
               if truthy existing then
                 (case dict_get existing ''id'' of
                    Inl e \<Rightarrow> (Inl e, s1)
                  | Inr i \<Rightarrow> (Inr \<lparr>er_existed = True, er_id = i, er_resp = None,
                                    er_error = None\<rparr>, s1))
               else
                 let display = py_strip (case display_name of
                                           None \<Rightarrow> email_norm
                                         | Some d \<Rightarrow> if d \<noteq> [] then d else email_norm);
                     payload = user_payload email_norm display;
                     failed = (\<lambda>e s'.
                       (Inr \<lparr>er_existed = False, er_id = JNull, er_resp = None,
                             er_error = Some (str_exn e)\<rparr>,
                        append_audit_json P ''CREATE_USER'' ''user'' email_norm ''FAILED''
                          (str_exn e) None None (Some payload) s'))
                 in (case scim_create_user P payload s1 of
                       (Inl e, s2) \<Rightarrow> failed e s2
                     | (Inr resp, s2) \<Rightarrow>
                         (case created_id P resp of
                            Inl e \<Rightarrow> failed e s2
                          | Inr user_id \<Rightarrow>
                              (Inr \<lparr>er_existed = False, er_id = user_id, er_resp = resp,
                                    er_error = None\<rparr>,
                               append_audit_json P ''CREATE_USER'' ''user'' email_norm ''SUCCESS''
                                 ''created'' (resp_code resp) (resp_value resp)
                                 (Some payload) s2))))"

definition opt_json :: "json option \<Rightarrow> json" where
  "opt_json x = (case x of None \<Rightarrow> JNull | Some v \<Rightarrow> v)"

text \<open>\<open>first_name + (" " + last_name if last_name else "")\<close>, stripped.\<close>

definition composed_name :: "string \<Rightarrow> string \<Rightarrow> string" where
  "composed_name first_name last_name =
     py_strip (first_name @ (if last_name \<noteq> [] then '' '' @ last_name else []))"

definition create_user_handler :: "platform \<Rightarrow> row \<Rightarrow> state \<Rightarrow> (exn + json) \<times> state" where
  "create_user_handler P r s =
     (let email = py_lower (py_strip (field r ''user_email''));
          first_name = py_strip (field r ''first_name'');
          last_name = py_strip (field r ''last_name'');
          display_name = (if first_name \<noteq> [] \<or> last_name \<noteq> []
                          then composed_name first_name last_name else email)
      in if email = [] then
           (Inl (ValueError ''user_email required''),
            audit P ''CREATE_USER'' ''user'' [] ''FAILED'' ''user_email missing'' s)
         else
           case find_user_by_email P email s of
             (existing, s1) \<Rightarrow>
               if truthy existing then
                 (let s2 = audit P ''CREATE_USER'' ''user'' email ''SKIPPED''
                             ''already_exists'' s1
                  in case dict_get existing ''id'' of
                       Inl e \<Rightarrow> (Inl e, s2)
                     | Inr i \<Rightarrow> (Inr (JObj [(''status'', JStr ''skipped''), (''id'', i)]), s2))
               else
                 (case ensure_user P email (Some display_name) s1 of
                    (Inl e, s2) \<Rightarrow> (Inl e, s2)
                  | (Inr result, s2) \<Rightarrow>
                      if truthy (er_id result) then
                        (Inr (JObj [(''status'', JStr ''created''), (''id'', er_id result),
                                    (''resp'', opt_json (resp_value (er_resp result)))]), s2)
                      else (Inl (RuntimeError (''create_user failed: ''
                                   @ str_opt (er_error result))), s2)))"

text \<open>\<open>k in d\<close> for a string key and a decoded value.\<close>

fun is_infix :: "string \<Rightarrow> string \<Rightarrow> bool" where
  "is_infix k [] = (k = [])"
| "is_infix k (c # cs) = (take (length k) (c # cs) = k \<or> is_infix k cs)"

fun py_in :: "string \<Rightarrow> json \<Rightarrow> exn + bool" where
  "py_in k (JObj kvs) = Inr (k \<in> fst ` set kvs)"
| "py_in k (JArr xs) = Inr (JStr k \<in> set xs)"
| "py_in k (JStr s) = Inr (is_infix k s)"
| "py_in k _ = Inl (TypeError ''not iterable'')"

text \<open>
  The operations \<open>update_user_handler\<close> derives from \<open>attributes_json\<close>: a replace
  of \<open>displayName\<close> and a replace of \<open>active\<close>, each when its key is there.
\<close>

definition attr_op :: "string \<Rightarrow> json \<Rightarrow> json" where
  "attr_op path v = JObj [(''op'', JStr ''replace''), (''path'', JStr path), (''value'', v)]"

definition attribute_ops :: "platform \<Rightarrow> string \<Rightarrow> exn + json list" where
  "attribute_ops P attrs_json =
     (case json_loads P attrs_json of
        Inl e \<Rightarrow> Inl e
      | Inr attrs \<Rightarrow>
          (case py_in ''displayName'' attrs of
             Inl e \<Rightarrow> Inl e
           | Inr has_name \<Rightarrow>
               (case (if has_name then map_sum id (\<lambda>v. [attr_op ''displayName'' v])
                                         (subscript attrs ''displayName'')
                      else Inr []) of
                  Inl e \<Rightarrow> Inl e
                | Inr ops1 \<Rightarrow>
                    (case py_in ''active'' attrs of
                       Inl e \<Rightarrow> Inl e
                     | Inr has_active \<Rightarrow>
                         if has_active then
                           map_sum id (\<lambda>v. ops1 @ [attr_op ''active'' (JBool (truthy v))])
                             (subscript attrs ''active'')
                         else Inr ops1))))"

definition patch_op :: "json list \<Rightarrow> json" where
  "patch_op ops =
     JObj [(''schemas'', JArr [JStr ''urn:ietf:params:scim:api:messages:2.0:PatchOp'']),
           (''Operations'', JArr ops)]"

definition op_path_named :: "json \<Rightarrow> bool" where
  "op_path_named op =
     (dict_get op ''path'' = Inr (JStr ''displayName'')
      \<or> dict_get op ''path'' = Inr (JStr ''name.formatted''))"

definition update_user_handler :: "platform \<Rightarrow> row \<Rightarrow> state \<Rightarrow> (exn + json) \<times> state" where
  "update_user_handler P r s =
     (let email = py_lower (py_strip (field r ''user_email''))
      in if email = [] then
           (Inl (ValueError ''user_email required''),
            audit P ''UPDATE_USER'' ''user'' [] ''FAILED'' ''user_email required'' s)
         else
           case find_user_by_email P email s of
             (existing, s1) \<Rightarrow>
               if \<not> truthy existing then
                 (Inl (ValueError ''user not found''),
                  audit P ''UPDATE_USER'' ''user'' email ''NOT_FOUND'' ''user not found'' s1)
               else
                 (case dict_get existing ''id'' of
                   Inl e \<Rightarrow> (Inl e, s1)
                 | Inr user_id \<Rightarrow>
                     let attrs_json = py_strip (field r ''attributes_json'')
                     in (case (if attrs_json \<noteq> [] then attribute_ops P attrs_json else Inr []) of
                          Inl e \<Rightarrow>
                            (Inl e,
                             append_audit_json P ''UPDATE_USER'' ''user'' email ''FAILED''
                               (''invalid attributes_json: '' @ str_exn e) None None
                               (Some (JStr attrs_json)) s1)
                        | Inr ops0 \<Rightarrow>
                            let first_name = py_strip (field r ''first_name'');
                                last_name = py_strip (field r ''last_name'');
                                composed = (if first_name \<noteq> [] \<or> last_name \<noteq> []
                                            then composed_name first_name last_name else []);
                                ops = (if composed \<noteq> [] \<and> \<not> list_ex op_path_named ops0
                                       then ops0 @ [attr_op ''name.formatted'' (JStr composed)]
                                       else ops0)
                            in if ops = [] then
                                 (Inr (JObj [(''status'', JStr ''noop'')]),
                                  audit P ''UPDATE_USER'' ''user'' email ''NOOP''
                                    ''nothing to update'' s1)
                               else
                                 (case scim_patch_user P user_id (patch_op ops) s1 of
                                    (Inl e, s2) \<Rightarrow>
                                      (Inl e,
                                       append_audit_json P ''UPDATE_USER'' ''user'' email ''FAILED''
                                         (str_exn e) None None (Some (patch_op ops)) s2)
                                  | (Inr resp, s2) \<Rightarrow>
                                      (Inr (JObj [(''status'', JStr ''updated''),
                                                  (''resp'', opt_json (resp_value resp))]),
                                       append_audit_json P ''UPDATE_USER'' ''user'' email ''SUCCESS''
                                         ''patched'' (Some 200) (resp_value resp)
                                         (Some (patch_op ops)) s2)))))"

text \<open>
  A value handed to \<open>append_audit\<close> as the identifier, as the stored record shows it:
  a string as it is, \<open>None\<close> as the empty field, others by \<open>str\<close>.
\<close>

definition identifier_text :: "platform \<Rightarrow> json \<Rightarrow> string" where
  "identifier_text P j = (case j of JStr s \<Rightarrow> s | JNull \<Rightarrow> [] | _ \<Rightarrow> py_str P j)"

text \<open>The deletion itself, once the id is known.\<close>

definition delete_by_id :: "platform \<Rightarrow> json \<Rightarrow> state \<Rightarrow> (exn + json) \<times> state" where
  "delete_by_id P user_id s =
     (case scim_delete_user P user_id s of
        (Inl e, s1) \<Rightarrow>
          (Inl e,
           audit P ''DELETE_USER'' ''user'' (identifier_text P user_id) ''FAILED'' (str_exn e) s1)
      | (Inr resp, s1) \<Rightarrow>
          (Inr (JObj [(''status'', JStr ''deleted''), (''id'', user_id)]),
           append_audit_json P ''DELETE_USER'' ''user'' (identifier_text P user_id) ''SUCCESS''
             ''deleted'' (Some 204) None None s1))"

definition delete_user_handler :: "platform \<Rightarrow> row \<Rightarrow> state \<Rightarrow> (exn + json) \<times> state" where
  "delete_user_handler P r s =
     (let user_id = py_strip (field r ''user_id'')
      in if user_id \<noteq> [] then delete_by_id P (JStr user_id) s
         else
           let email = py_lower (py_strip
                         (if field r ''user_email'' \<noteq> [] then field r ''user_email''
                          else field r ''email''))
           in if email = [] then
                (Inl (ValueError ''user_id or user_email required''),
                 audit P ''DELETE_USER'' ''user'' [] ''FAILED''
                   ''user_id or user_email required'' s)
              else
                case find_user_by_email P email s of
                  (existing, s1) \<Rightarrow>
                    if \<not> truthy existing then
                      (Inl (ValueError ''user not found''),
                       audit P ''DELETE_USER'' ''user'' email ''NOT_FOUND'' [] s1)
                    else
                      (case dict_get existing ''id'' of
                         Inl e \<Rightarrow> (Inl e, s1)
                       | Inr i \<Rightarrow> delete_by_id P i s1))"

subsection \<open>Groups\<close>

text \<open>
  The loop that resolves member emails to user ids, shared in shape by
  \<open>create_group_handler\<close> and \<open>add_members_to_group_handler\<close>: resolved ids and
  unresolved emails are collected in order.
\<close>

fun resolve_members ::
  "platform \<Rightarrow> string list \<Rightarrow> json list \<Rightarrow> string list \<Rightarrow> state
     \<Rightarrow> (exn + json list \<times> string list) \<times> state" where
  "resolve_members P [] member_objs missing_members s = (Inr (member_objs, missing_members), s)"
| "resolve_members P (m # ms) member_objs missing_members s =
     (case get_user_id_by_email P m s of
        (Inl e, s1) \<Rightarrow> (Inl e, s1)
      | (Inr uid, s1) \<Rightarrow>
          if truthy uid
          then resolve_members P ms (member_objs @ [JObj [(''value'', uid)]]) missing_members s1
          else resolve_members P ms member_objs (missing_members @ [m]) s1)"

definition group_payload :: "string \<Rightarrow> json" where
  "group_payload group_name =
     JObj [(''schemas'', JArr [JStr ''urn:ietf:params:scim:schemas:core:2.0:Group'']),
           (''displayName'', JStr group_name)]"

definition add_members_patch :: "json list \<Rightarrow> json" where
  "add_members_patch member_objs =
     patch_op [JObj [(''op'', JStr ''add''), (''path'', JStr ''members''),
                     (''value'', JArr member_objs)]]"

text \<open>A group creation counts as done on 200 or 201; only the status is looked at.\<close>

definition created_status :: "platform \<Rightarrow> outcome option \<Rightarrow> exn + int" where
  "created_status P resp =
     (case resp of
        None \<Rightarrow> Inl (AttributeError ''get'')
      | Some r \<Rightarrow>
          if status_code r \<notin> {200, 201} then Inl (RuntimeError (py_str P (body r)))
          else Inr (status_code r))"

text \<open>A patch call counts as done on 200 or 204.\<close>

definition patched_status :: "platform \<Rightarrow> outcome option \<Rightarrow> exn + int" where
  "patched_status P resp =
     (case resp of
        None \<Rightarrow> Inl (AttributeError ''get'')
      | Some r \<Rightarrow>
          if status_code r \<notin> {200, 204} then Inl (RuntimeError (py_str P (body r)))
          else Inr (status_code r))"

definition created_result :: "outcome option \<Rightarrow> bool \<Rightarrow> json" where
  "created_result resp members_patched =
     JObj [(''status'', JStr ''created''), (''resp'', opt_json (resp_value resp)),
           (''members_patched'', JBool members_patched)]"

text \<open>The second half of \<open>create_group_handler\<close>: the members go in by one patch.\<close>

definition patch_new_group ::
  "platform \<Rightarrow> string \<Rightarrow> outcome option \<Rightarrow> json list \<Rightarrow> state \<Rightarrow> (exn + json) \<times> state" where
  "patch_new_group P group_name resp member_objs s =
     (case (case resp of None \<Rightarrow> Inl (AttributeError ''get'')
            | Some r \<Rightarrow> dict_get (py_or (body r) (JObj [])) ''id'') of
        Inl e \<Rightarrow> (Inl e, s)
      | Inr group_id \<Rightarrow>
          let patch_payload = add_members_patch member_objs;
              failed = (\<lambda>e s'.
                (Inl e,
                 append_audit_json P ''CREATE_GROUP'' ''group'' group_name ''FAILED''
                   (''members patch failed: '' @ str_exn e) None None (Some patch_payload) s'))
          in (case scim_patch_group P group_id patch_payload s of
               (Inl e, s1) \<Rightarrow> failed e s1
             | (Inr patch_resp, s1) \<Rightarrow>
                 (case patched_status P patch_resp of
                    Inl e \<Rightarrow> failed e s1
                  | Inr patch_status \<Rightarrow>
                      (Inr (created_result resp True),
                       append_audit_json P ''CREATE_GROUP'' ''group'' group_name ''SUCCESS''
                         (''added '' @ str_nat (length member_objs) @ '' members'')
                         (Some patch_status) (resp_value patch_resp)
                         (Some patch_payload) s1))))"

definition create_group_handler :: "platform \<Rightarrow> row \<Rightarrow> state \<Rightarrow> (exn + json) \<times> state" where
  "create_group_handler P r s =
     (case construct_group_name r of
        Inl e \<Rightarrow> (Inl e, s)
      | Inr group_name \<Rightarrow>
          if group_name = [] then
            (Inl (ValueError ''group_name required''),
             audit P ''CREATE_GROUP'' ''group'' [] ''FAILED''
               ''cannot construct group_name from row data'' s)
          else
            case find_group_by_display_name P group_name s of
              (existing_group, s1) \<Rightarrow>
                if truthy existing_group then
                  (Inl (ValueError ''Group already exists. Use add_to_group to add members.''),
                   audit P ''CREATE_GROUP'' ''group'' group_name ''FAILED''
                     ''Group already exists. Use add_to_group to add members.'' s1)
                else
                  (case resolve_members P (split_members (field r ''group_members'')) [] [] s1 of
                    (Inl e, s2) \<Rightarrow> (Inl e, s2)
                  | (Inr (member_objs, missing_members), s2) \<Rightarrow>
                      if missing_members \<noteq> [] then
                        (let msg = ''Cannot create group. These users do not exist: ''
                                     @ py_join '', '' missing_members
                         in (Inl (ValueError msg),
                             audit P ''CREATE_GROUP'' ''group'' group_name ''FAILED'' msg s2))
                      else
                        let create_payload = group_payload group_name;
                            failed = (\<lambda>e s'.
                              (Inl e,
                               append_audit_json P ''CREATE_GROUP'' ''group'' group_name ''FAILED''
                                 (str_exn e) None None (Some create_payload) s'))
                        in (case scim_create_group P create_payload s2 of
                             (Inl e, s3) \<Rightarrow> failed e s3
                           | (Inr resp, s3) \<Rightarrow>
                               (case created_status P resp of
                                  Inl e \<Rightarrow> failed e s3
                                | Inr status \<Rightarrow>
                                    let s4 = append_audit_json P ''CREATE_GROUP'' ''group'' group_name
                                               ''SUCCESS'' ''created'' (Some status)
                                               (resp_value resp) (Some create_payload) s3
                                    in if member_objs \<noteq> []
                                       then patch_new_group P group_name resp member_objs s4
                                       else (Inr (created_result resp False), s4)))))"

definition add_members_to_group_handler ::
  "platform \<Rightarrow> row \<Rightarrow> state \<Rightarrow> (exn + json) \<times> state" where
  "add_members_to_group_handler P r s =
     (case construct_group_name r of
        Inl e \<Rightarrow> (Inl e, s)
      | Inr group_name \<Rightarrow>
          if group_name = [] then
            (Inl (ValueError ''group_name required''),
             audit P ''ADD_TO_GROUP'' ''group'' [] ''FAILED'' ''cannot construct group_name'' s)
          else
            let members = split_members (field r ''group_members'')
            in if members = [] then
                 (Inr (JObj [(''status'', JStr ''noop'')]),
                  audit P ''ADD_TO_GROUP'' ''group'' group_name ''NOOP'' ''no members specified'' s)
               else
                 (case find_group_by_display_name P group_name s of
                    (grp, s1) \<Rightarrow>
                      if \<not> truthy grp then
                        (Inl (ValueError ''group not found''),
                         audit P ''ADD_TO_GROUP'' ''group'' group_name ''NOT_FOUND''
                           ''group not found'' s1)
                      else
                        (case dict_get grp ''id'' of
                           Inl e \<Rightarrow> (Inl e, s1)
                         | Inr group_id \<Rightarrow>
                             (case resolve_members P members [] [] s1 of
                                (Inl e, s2) \<Rightarrow> (Inl e, s2)
                              | (Inr (member_objs, missing_members), s2) \<Rightarrow>
                                  if missing_members \<noteq> [] then
                                    (let msg = ''Cannot add members. These users do not exist: ''
                                                 @ py_join '', '' missing_members
                                     in (Inl (ValueError msg),
                                         audit P ''ADD_TO_GROUP'' ''group'' group_name ''FAILED''
                                           msg s2))
                                  else
                                    let patch = add_members_patch member_objs;
                                        failed = (\<lambda>e s'.
                                          (Inl e,
                                           append_audit_json P ''ADD_TO_GROUP'' ''group'' group_name
                                             ''FAILED'' (str_exn e) None None (Some patch) s'))
                                    in (case scim_patch_group P group_id patch s2 of
                                          (Inl e, s3) \<Rightarrow> failed e s3
                                        | (Inr resp, s3) \<Rightarrow>
                                            (case patched_status P resp of
                                               Inl e \<Rightarrow> failed e s3
                                             | Inr status \<Rightarrow>
                                                 (Inr (JObj [(''status'', JStr ''added''),
                                                        (''resp'', opt_json (resp_value resp))]),
                                                  append_audit_json P ''ADD_TO_GROUP'' ''group''
                                                    group_name ''SUCCESS''
                                                    (''added '' @ str_nat (length member_objs))
                                                    (Some status) (resp_value resp)
                                                    (Some patch) s3)))))))"

text \<open>The removal patch for one user id.\<close>

definition remove_patch :: "platform \<Rightarrow> json \<Rightarrow> json" where
  "remove_patch P uid =
     patch_op [JObj [(''op'', JStr ''remove''),
                     (''path'', JStr (''members[value eq '' @ dquote @ fmt P uid @ dquote
                                      @ '']''))]]"

text \<open>
  The loop of \<open>remove_members_from_group_handler\<close>, one member at a time, with the
  results collected so far. A member that does not resolve stands for itself as an id;
  the status of the patch response is not inspected.
\<close>

fun remove_loop ::
  "platform \<Rightarrow> string \<Rightarrow> json \<Rightarrow> string list \<Rightarrow> json list \<Rightarrow> state
     \<Rightarrow> (exn + json list) \<times> state" where
  "remove_loop P group_name group_id [] results s = (Inr results, s)"
| "remove_loop P group_name group_id (m # ms) results s =
     (case get_user_id_by_email P m s of
        (Inl e, s1) \<Rightarrow> (Inl e, s1)
      | (Inr found, s1) \<Rightarrow>
          let uid = (if truthy found then found else if m \<noteq> [] then JStr m else JNull)
          in if \<not> truthy uid then
               remove_loop P group_name group_id ms
                 (results @ [JObj [(''member'', JStr m), (''status'', JStr ''skipped'')]])
                 (append_audit_json P ''REMOVE_FROM_GROUP'' ''group'' group_name ''SKIPPED''
                    (''user not found '' @ m) None None (Some (JStr m)) s1)
             else
               (case scim_patch_group P group_id (remove_patch P uid) s1 of
                  (Inr resp, s2) \<Rightarrow>
                    remove_loop P group_name group_id ms
                      (results @ [JObj [(''member'', JStr m), (''id'', uid),
                                        (''status'', JStr ''removed'')]])
                      (append_audit_json P ''REMOVE_FROM_GROUP'' ''group'' group_name ''SUCCESS''
                         (''removed '' @ fmt P uid) (Some 200) (resp_value resp)
                         (Some (remove_patch P uid)) s2)
                | (Inl e, s2) \<Rightarrow>
                    remove_loop P group_name group_id ms
                      (results @ [JObj [(''member'', JStr m), (''id'', uid),
                                        (''status'', JStr ''failed''),
                                        (''error'', JStr (str_exn e))]])
                      (append_audit_json P ''REMOVE_FROM_GROUP'' ''group'' group_name ''FAILED''
                         (''remove '' @ fmt P uid @ '' failed: '' @ str_exn e) None None
                         (Some (remove_patch P uid)) s2)))"

text \<open>\<open>r.get("status")\<close> of one result entry.\<close>

definition entry_status :: "json \<Rightarrow> json" where
  "entry_status entry = (case dict_get entry ''status'' of Inl e \<Rightarrow> JNull | Inr v \<Rightarrow> v)"

definition removal_result :: "json list \<Rightarrow> json" where
  "removal_result results =
     JObj [(''status'',
            JStr (if list_ex (\<lambda>entry. entry_status entry \<noteq> JStr ''removed'') results
                  then ''partial'' else ''removed_all'')),
           (''results'', JArr results)]"

definition remove_members_from_group_handler ::
  "platform \<Rightarrow> row \<Rightarrow> state \<Rightarrow> (exn + json) \<times> state" where
  "remove_members_from_group_handler P r s =
     (case construct_group_name r of
        Inl e \<Rightarrow> (Inl e, s)
      | Inr group_name \<Rightarrow>
          if group_name = [] then
            (Inl (ValueError ''group_name required''),
             audit P ''REMOVE_FROM_GROUP'' ''group'' [] ''FAILED''
               ''cannot construct group_name'' s)
          else
            let members = split_members (field r ''group_members'')
            in if members = [] then
                 (Inr (JObj [(''status'', JStr ''noop'')]),
                  audit P ''REMOVE_FROM_GROUP'' ''group'' group_name ''NOOP''
                    ''no members specified'' s)
               else
                 (case find_group_by_display_name P group_name s of
                    (grp, s1) \<Rightarrow>
                      if \<not> truthy grp then
                        (Inl (ValueError ''group not found''),
                         audit P ''REMOVE_FROM_GROUP'' ''group'' group_name ''NOT_FOUND''
                           ''group not found'' s1)
                      else
                        (case dict_get grp ''id'' of
                           Inl e \<Rightarrow> (Inl e, s1)
                         | Inr group_id \<Rightarrow>
                             (case remove_loop P group_name group_id members [] s1 of
                                (Inl e, s2) \<Rightarrow> (Inl e, s2)
                              | (Inr results, s2) \<Rightarrow> (Inr (removal_result results), s2)))))"

subsection \<open>Project onboarding\<close>




section \<open>app.py: the per-row boundary\<close>

text \<open>
  \<open>str.upper\<close> on the modelled range. The sharp s (223) becomes \<open>SS\<close>. The upper
  case of the micro sign (181) and of y with diaeresis (255) lies outside the range,
  at U+039C and U+0178: for a text that holds one of them the result is \<open>None\<close> here,
  and its text is the platform's \<open>str_upper\<close>.
\<close>

definition upper_char :: "char \<Rightarrow> string option" where
  "upper_char c =
     (let n = (of_char c :: nat)
      in if n = 223 then Some ''SS''
         else if n = 181 \<or> n = 255 then None
         else if (97 \<le> n \<and> n \<le> 122) \<or> (224 \<le> n \<and> n \<le> 254 \<and> n \<noteq> 247)
           then Some [char_of (n - 32)]
         else Some [c])"

fun py_upper :: "string \<Rightarrow> string option" where
  "py_upper [] = Some []"
| "py_upper (c # cs) =
     (case upper_char c of
        None \<Rightarrow> None
      | Some u \<Rightarrow> (case py_upper cs of None \<Rightarrow> None | Some us \<Rightarrow> Some (u @ us)))"

definition group_actions :: "string list" where
  "group_actions = [''CREATE_GROUP'', ''ADD_TO_GROUP'', ''REMOVE_FROM_GROUP'']"

text \<open>
  The \<open>if\<close>/\<open>elif\<close> chain of \<open>process_row\<close>. The variable \<open>action\<close> is compared as
  \<open>name\<close>, the upper-cased text when the modelled range holds it (a text outside the
  range equals none of the action names), and written as \<open>action\<close>.
\<close>

definition dispatch ::
  "platform \<Rightarrow> string option \<Rightarrow> string \<Rightarrow> row \<Rightarrow> state \<Rightarrow> (exn + json) \<times> state" where
  "dispatch P name action r s =
     (if name = Some ''CREATE_USER'' then create_user_handler P r s
      else if name = Some ''DELETE_USER'' then delete_user_handler P r s
      else if name = Some ''UPDATE_USER'' then update_user_handler P r s
      else if name = Some ''CREATE_GROUP'' then create_group_handler P r s
      else if name = Some ''ADD_TO_GROUP'' then add_members_to_group_handler P r s
      else if name = Some ''REMOVE_FROM_GROUP'' then remove_members_from_group_handler P r s
      else (Inr (JObj [(''error'', JStr (''unknown action: '' @ action))]),
            audit P action ''unknown'' [] ''FAILED'' ''unknown action'' s))"

text \<open>
  The identifier computed in the \<open>except\<close> clause. The conditional expression binds
  looser than \<open>or\<close>: for a group action (compared on the raw \<open>action\<close> field) it is
  the email or else the group name, which is constructed again and may raise again.
\<close>

definition failure_identifier :: "row \<Rightarrow> exn + string" where
  "failure_identifier r =
     (if row_get r ''action''
           \<in> Some ` set (group_actions @ [''UPDATE_GROUP''])
      then (if field r ''user_email'' \<noteq> [] then Inr (field r ''user_email'')
            else construct_group_name r)
      else Inr [])"

text \<open>The \<open>identifier\<close> entry of the returned dict.\<close>

definition result_identifier :: "string option \<Rightarrow> row \<Rightarrow> exn + string" where
  "result_identifier name r =
     (if field r ''user_email'' \<noteq> [] then Inr (field r ''user_email'')
      else
        case (if name \<in> Some ` set group_actions then construct_group_name r else Inr []) of
          Inl e \<Rightarrow> Inl e
        | Inr g \<Rightarrow> Inr (if g \<noteq> [] then g else field r ''admin''))"

text \<open>
  \<open>process_row\<close>: the dispatch inside the \<open>try\<close>, the \<open>except\<close> clause that records
  the failure, and the dict returned. An exception raised inside the \<open>except\<close> clause
  or while the dict is built leaves the function.
\<close>

definition process_row :: "platform \<Rightarrow> int \<Rightarrow> row \<Rightarrow> state \<Rightarrow> (exn + json) \<times> state" where
  "process_row P ix r s =
     (let name = py_upper (py_strip (field r ''action''));
          action = (case name of Some a \<Rightarrow> a
                    | None \<Rightarrow> str_upper P (py_strip (field r ''action'')))
      in case (case dispatch P name action r s of
                 (Inr resp, s1) \<Rightarrow> (Inr resp, s1)
               | (Inl e, s1) \<Rightarrow>
                   (case failure_identifier r of
                      Inl e' \<Rightarrow> (Inl e', s1)
                    | Inr identifier \<Rightarrow>
                        (Inr (JObj [(''error'', JStr (str_exn e))]),
                         audit P action ''error'' identifier ''FAILED'' (str_exn e) s1))) of
           (Inl e, s2) \<Rightarrow> (Inl e, s2)
         | (Inr resp, s2) \<Rightarrow>
             (case result_identifier name r of
                Inl e \<Rightarrow> (Inl e, s2)
              | Inr identifier \<Rightarrow>
                  (Inr (JObj [(''row'', JInt ix),
                              (''action'', JStr action),
                              (''principal_type'',
                                 opt_str (row_get_default r ''principal_type'' [])),
                              (''identifier'', JStr identifier),
                              (''result'', resp)]), s2)))"

subsection \<open>The onboarding route\<close>






section \<open>Notions for the statements about the operations\<close>

text \<open>
  \<open>grows Q h h'\<close>: the event log \<open>h'\<close> extends \<open>h\<close>, and every request sent in the
  extension satisfies \<open>Q\<close>. With \<open>Q\<close> the test for a \<open>GET\<close>, it says that nothing
  mutating went out.
\<close>

definition grows :: "(request \<Rightarrow> bool) \<Rightarrow> event list \<Rightarrow> event list \<Rightarrow> bool" where
  "grows Q h h' = (\<exists>evs. h' = h @ evs \<and> list_all Q (sent evs))"

abbreviation is_get :: "request \<Rightarrow> bool" where
  "is_get q \<equiv> req_method q = ''GET''"

subsection \<open>Scripted answers\<close>

text \<open>A JSON response with a given status, and a 200 listing of directory resources.\<close>

definition ok_json :: "int \<Rightarrow> json \<Rightarrow> attempt" where
  "ok_json code j = Responded \<lparr>resp_status_code = code, resp_json = Some j, resp_text = []\<rparr>"

definition listing :: "json list \<Rightarrow> attempt" where
  "listing xs = ok_json 200 (JObj [(''Resources'', JArr xs)])"

text \<open>A group row with two members.\<close>

definition readers_row :: row where
  "readers_row = [''env'' \<mapsto> Some ''dev'', ''bu'' \<mapsto> Some ''Finance'',
     ''appName'' \<mapsto> Some ''App1'', ''role'' \<mapsto> Some ''readers'',
     ''group_members'' \<mapsto> Some ''a@x.org, Ghost@x.org'']"

text \<open>
  A row for the per-row boundary: a group row whose business unit is \<open>Others\<close> with
  a blank override.
\<close>

definition others_row :: row where
  "others_row = [''action'' \<mapsto> Some ''CREATE_GROUP'', ''bu'' \<mapsto> Some ''Others'',
     ''other_type'' \<mapsto> Some [], ''role'' \<mapsto> Some ''readers'']"

text \<open>
  A removal of three members from an existing group: the directory knows the first two,
  finds nobody for the third, and answers every patch with 204.
\<close>

definition removal_row :: row where
  "removal_row = [''env'' \<mapsto> Some ''dev'', ''bu'' \<mapsto> Some ''Finance'',
     ''appName'' \<mapsto> Some ''App1'', ''role'' \<mapsto> Some ''readers'',
     ''group_members'' \<mapsto> Some ''a@x.org; b@x.org; ghost@x.org'']"

definition no_content :: attempt where
  "no_content = Responded \<lparr>resp_status_code = 204, resp_json = None, resp_text = []\<rparr>"

definition two_known_one_ghost :: "attempt list" where
  "two_known_one_ghost =
     [listing [JObj [(''id'', JStr ''g1'')]],
      listing [JObj [(''id'', JStr ''u1'')]], no_content,
      listing [JObj [(''id'', JStr ''u2'')]], no_content,
      listing [], listing [], no_content]"

definition removal_run :: "(exn + json) \<times> state" where
  "removal_run =
     remove_members_from_group_handler (scripted two_known_one_ghost) removal_row initial_state"

text \<open>
  A request that creates a cluster carries a payload with a \<open>cluster_name\<close>; a request
  of the warehouse provisioning goes to the warehouses endpoint and carries none.
\<close>

definition creates_cluster :: "request \<Rightarrow> bool" where
  "creates_cluster q =
     (case json (req_kwargs q) of
        Some (JObj kvs) \<Rightarrow> ''cluster_name'' \<in> fst ` set kvs
      | _ \<Rightarrow> False)"








text \<open>
  A workspace that lists a cluster named \<open>App1\<close> and answers every other request by
  creating a cluster.
\<close>

definition workspace_with_cluster :: platform where
  "workspace_with_cluster =
     (scripted [])\<lparr>requests_request := (\<lambda>h q.
        if req_method q = ''GET''
        then ok_json 200 (JObj [(''clusters'',
               JArr [JObj [(''cluster_name'', JStr ''App1''), (''cluster_id'', JStr ''c1'')]])])
        else ok_json 200 (JObj [(''cluster_id'', JStr ''c2'')]))\<rparr>"

section \<open>A reference directory\<close>

text \<open>
  Whether a second \<open>create\<close> finds what the first one made is decided by the remote
  identity directory, which is outside the repository. For that one statement its part
  is played by a reference directory with the contract the client relies on: a list
  call returns the users whose \<open>userName\<close> or one of whose emails equals the value of
  the filter, in directory order; a create call stores the user under an id no user
  has yet, unless the \<open>userName\<close> is taken; nothing else changes it.
\<close>

record dir_user =
  u_id :: string
  u_userName :: string
  u_emails :: "string list"

type_synonym directory = "dir_user list"

definition user_json :: "dir_user \<Rightarrow> json" where
  "user_json u =
     JObj [(''id'', JStr (u_id u)), (''userName'', JStr (u_userName u)),
           (''emails'', JArr (map (\<lambda>e. JObj [(''value'', JStr e)]) (u_emails u)))]"

text \<open>The filter expressions are those of \<open>_find_user_by_email\<close>, compared as text.\<close>

definition matches :: "string \<Rightarrow> dir_user \<Rightarrow> bool" where
  "matches f u =
     (f = ''userName eq '' @ dquote @ u_userName u @ dquote
      \<or> list_ex (\<lambda>e. f = ''emails.value eq '' @ dquote @ e @ dquote) (u_emails u))"

text \<open>An id longer than every id in use.\<close>

definition fresh_id :: "directory \<Rightarrow> string" where
  "fresh_id d = replicate (Suc (foldr max (map (\<lambda>u. length (u_id u)) d) 0)) (CHR ''u'')"

definition payload_emails :: "json \<Rightarrow> string list" where
  "payload_emails payload =
     (case dict_get payload ''emails'' of
        Inr (JArr es) \<Rightarrow>
          concat (map (\<lambda>e. case dict_get e ''value'' of Inr (JStr v) \<Rightarrow> [v] | _ \<Rightarrow> []) es)
      | _ \<Rightarrow> [])"

definition json_response :: "int \<Rightarrow> json \<Rightarrow> response" where
  "json_response code j = \<lparr>resp_status_code = code, resp_json = Some j, resp_text = []\<rparr>"

text \<open>The users endpoint, for the instance and account of the scripted platforms.\<close>

definition directory_url :: string where
  "directory_url = ''https://acct/api/2.1/accounts/a1/scim/v2/Users''"

definition serve :: "directory \<Rightarrow> request \<Rightarrow> response \<times> directory" where
  "serve d q =
     (if req_url q = Some directory_url \<and> req_method q = ''GET'' then
        (case params (req_kwargs q) of
           Some [(k, f)] \<Rightarrow>
             (json_response 200
                (JObj [(''Resources'', JArr (map user_json (filter (matches f) d)))]), d)
         | _ \<Rightarrow> (json_response 200 (JObj [(''Resources'', JArr (map user_json d))]), d))
      else if req_url q = Some directory_url \<and> req_method q = ''POST'' then
        (case json (req_kwargs q) of
           None \<Rightarrow> (json_response 400 (JObj []), d)
         | Some payload \<Rightarrow>
             (case dict_get payload ''userName'' of
                Inr (JStr n) \<Rightarrow>
                  if list_ex (\<lambda>u. u_userName u = n) d
                  then (json_response 409 (JObj []), d)
                  else
                    let u = \<lparr>u_id = fresh_id d, u_userName = n,
                             u_emails = payload_emails payload\<rparr>
                    in (json_response 201 (user_json u), d @ [u])
              | _ \<Rightarrow> (json_response 400 (JObj []), d)))
      else (json_response 404 (JObj []), d))"

text \<open>The directory after a sequence of requests, and the platform that answers from it.\<close>

definition replay :: "directory \<Rightarrow> request list \<Rightarrow> directory" where
  "replay d qs = foldl (\<lambda>d q. snd (serve d q)) d qs"

definition directory_platform :: "directory \<Rightarrow> platform" where
  "directory_platform d0 =
     (scripted [])\<lparr>requests_request :=
        (\<lambda>h q. Responded (fst (serve (replay d0 (sent h)) q)))\<rparr>"

definition directory_now :: "directory \<Rightarrow> state \<Rightarrow> directory" where
  "directory_now d0 s = replay d0 (sent (events s))"

text \<open>A user of the directory goes by this email, as \<open>userName\<close> or among the emails.\<close>

definition known :: "string \<Rightarrow> directory \<Rightarrow> bool" where
  "known email d = list_ex (\<lambda>u. u_userName u = email \<or> email \<in> set (u_emails u)) d"

text \<open>The two requests the user operations send to the users endpoint.\<close>

definition list_request :: "string \<Rightarrow> request" where
  "list_request f =
     \<lparr>req_method = ''GET'', req_url = Some directory_url,
      req_headers = [(''Authorization'', ''Bearer t''), (''Content-Type'', ''application/json'')],
      req_timeout = 12, req_kwargs = \<lparr>params = Some [(''filter'', f)], json = None\<rparr>\<rparr>"

definition create_request :: "json \<Rightarrow> request" where
  "create_request payload =
     \<lparr>req_method = ''POST'', req_url = Some directory_url,
      req_headers = [(''Authorization'', ''Bearer t''), (''Content-Type'', ''application/json'')],
      req_timeout = 12, req_kwargs = \<lparr>params = None, json = Some payload\<rparr>\<rparr>"

text \<open>A user row for an email the one-user directory does not know.\<close>

definition newcomer_row :: row where
  "newcomer_row = [''action'' \<mapsto> Some ''CREATE_USER'', ''user_email'' \<mapsto> Some '' New@X.org '',
     ''first_name'' \<mapsto> Some ''New'', ''last_name'' \<mapsto> Some ''Comer'']"

definition one_user :: directory where
  "one_user = [\<lparr>u_id = ''u1'', u_userName = ''old@x.org'', u_emails = [''old@x.org'']\<rparr>]"

section \<open>A reference directory with groups\<close>

text \<open>
  For the statement about group creation the account directory holds groups as well.
  Requests to the users endpoint are answered as by the reference directory above. A
  list call on the groups endpoint returns the groups whose display name equals the
  value of the filter, in directory order; a create call stores a group under an id no
  group has yet, unless the display name is taken; nothing else changes the directory.
\<close>

record dir_group =
  g_id :: string
  g_displayName :: string
  g_members :: "string list"

record account =
  acc_users :: directory
  acc_groups :: "dir_group list"

definition group_json :: "dir_group \<Rightarrow> json" where
  "group_json g =
     JObj [(''id'', JStr (g_id g)), (''displayName'', JStr (g_displayName g)),
           (''members'', JArr (map (\<lambda>m. JObj [(''value'', JStr m)]) (g_members g)))]"

text \<open>The filter expression is that of \<open>_find_group_by_display_name\<close>, compared as text.\<close>

definition named :: "string \<Rightarrow> dir_group \<Rightarrow> bool" where
  "named f g = (f = ''displayName eq '' @ dquote @ g_displayName g @ dquote)"

definition fresh_group_id :: "dir_group list \<Rightarrow> string" where
  "fresh_group_id gs = replicate (Suc (foldr max (map (\<lambda>g. length (g_id g)) gs) 0)) (CHR ''g'')"

definition groups_url :: string where
  "groups_url = ''https://acct/api/2.1/accounts/a1/scim/v2/Groups''"

definition serve_account :: "account \<Rightarrow> request \<Rightarrow> response \<times> account" where
  "serve_account a q =
     (if req_url q = Some directory_url then
        (case serve (acc_users a) q of (resp, d) \<Rightarrow> (resp, a\<lparr>acc_users := d\<rparr>))
      else if req_url q = Some groups_url \<and> req_method q = ''GET'' then
        (case params (req_kwargs q) of
           Some [(k, f)] \<Rightarrow>
             (json_response 200
                (JObj [(''Resources'', JArr (map group_json (filter (named f) (acc_groups a))))]),
              a)
         | _ \<Rightarrow>
             (json_response 200 (JObj [(''Resources'', JArr (map group_json (acc_groups a)))]),
              a))
      else if req_url q = Some groups_url \<and> req_method q = ''POST'' then
        (case json (req_kwargs q) of
           None \<Rightarrow> (json_response 400 (JObj []), a)
         | Some payload \<Rightarrow>
             (case dict_get payload ''displayName'' of
                Inr (JStr n) \<Rightarrow>
                  if list_ex (\<lambda>g. g_displayName g = n) (acc_groups a)
                  then (json_response 409 (JObj []), a)
                  else
                    let g = \<lparr>g_id = fresh_group_id (acc_groups a), g_displayName = n,
                             g_members = []\<rparr>
                    in (json_response 201 (group_json g), a\<lparr>acc_groups := acc_groups a @ [g]\<rparr>)
              | _ \<Rightarrow> (json_response 400 (JObj []), a)))
      else (json_response 404 (JObj []), a))"

definition replay_account :: "account \<Rightarrow> request list \<Rightarrow> account" where
  "replay_account a qs = foldl (\<lambda>a q. snd (serve_account a q)) a qs"

definition account_platform :: "account \<Rightarrow> platform" where
  "account_platform a0 =
     (scripted [])\<lparr>requests_request :=
        (\<lambda>h q. Responded (fst (serve_account (replay_account a0 (sent h)) q)))\<rparr>"

definition account_now :: "account \<Rightarrow> state \<Rightarrow> account" where
  "account_now a0 s = replay_account a0 (sent (events s))"

text \<open>
  The user a lookup by email gives in a directory: the first that carries it as
  \<open>userName\<close>, else the first that has it among the emails. An email is unresolved
  when there is no such user, or when that user has no id to give.
\<close>

definition first_user :: "directory \<Rightarrow> string \<Rightarrow> dir_user option" where
  "first_user d email =
     (case filter (\<lambda>u. u_userName u = email) d of
        u # us \<Rightarrow> Some u
      | [] \<Rightarrow>
          (case filter (\<lambda>u. email \<in> set (u_emails u)) d of
             u # us \<Rightarrow> Some u
           | [] \<Rightarrow> None))"

definition unresolved :: "directory \<Rightarrow> string \<Rightarrow> bool" where
  "unresolved d email = (case first_user d email of None \<Rightarrow> True | Some u \<Rightarrow> u_id u = [])"

text \<open>The request of the existence check.\<close>

definition group_list_request :: "string \<Rightarrow> request" where
  "group_list_request name =
     \<lparr>req_method = ''GET'', req_url = Some groups_url,
      req_headers = [(''Authorization'', ''Bearer t''), (''Content-Type'', ''application/json'')],
      req_timeout = 12,
      req_kwargs = \<lparr>params = Some [(''filter'', ''displayName eq '' @ dquote @ name @ dquote)],
                     json = None\<rparr>\<rparr>"

text \<open>
  An account with the group of \<open>readers_row\<close> and the user \<open>a@x.org\<close>, and one with
  the user but without the group.
\<close>

definition readers_account :: account where
  "readers_account =
     \<lparr>acc_users = [\<lparr>u_id = ''u1'', u_userName = ''a@x.org'', u_emails = [''a@x.org'']\<rparr>],
      acc_groups = [\<lparr>g_id = ''g1'', g_displayName = ''nprod_TMFinance_App1_readers'',
                     g_members = []\<rparr>]\<rparr>"

definition no_groups_account :: account where
  "no_groups_account = readers_account\<lparr>acc_groups := []\<rparr>"

text \<open>A group row without members.\<close>

definition memberless_row :: row where
  "memberless_row = [''env'' \<mapsto> Some ''dev'', ''bu'' \<mapsto> Some ''Finance'',
     ''appName'' \<mapsto> Some ''App1'', ''role'' \<mapsto> Some ''readers'']"

text \<open>The same directory behind a groups listing that is out of service.\<close>

definition listing_unavailable :: "account \<Rightarrow> platform" where
  "listing_unavailable a0 =
     (scripted [])\<lparr>requests_request :=
        (\<lambda>h q. if req_method q = ''GET'' \<and> req_url q = Some groups_url
                then ok_json 503 (JObj [(''detail'', JStr ''unavailable'')])
                else Responded (fst (serve_account (replay_account a0 (sent h)) q)))\<rparr>"

section \<open>Properties\<close>

subsection \<open>The group name\<close>

text \<open>
  C2, counterexample. With an empty business unit the specification's rule keeps the
  part \<open>"TM" + bu\<close>, which is the non-empty string \<open>TM\<close>; the code leaves the
  segment out.
\<close>

theorem group_name_spec_counterexample:
  "construct_group_name [''env'' \<mapsto> Some ''dev'', ''bu'' \<mapsto> Some '''', ''appName'' \<mapsto> Some ''App1'',
       ''role'' \<mapsto> Some ''readers'']
     = Inr ''nprod_App1_readers''
   \<and> GroupName_spec ''dev'' '''' '''' '''' ''App1'' ''readers'' = Inr ''nprod_TM_App1_readers''"
  by code_simp

text \<open>
  C2, amended. The group name is a function of the six row fields alone: each field is
  trimmed, the environment is compared in lower case with \<open>prod\<close>, \<open>production\<close>,
  \<open>prd\<close>, \<open>p\<close> to choose \<open>prod\<close> or \<open>nprod\<close>, the override replaces the business
  unit \<open>Others\<close> (a blank override is an error), and the prefix, \<open>TM\<close> followed by a
  non-empty business unit, the domain, the application and the role are joined with
  \<open>_\<close>, empty ones left out. The two named examples evaluate as the specification says.
\<close>

theorem group_name_trimmed:
  "construct_group_name r =
     GroupName_trimmed (field r ''env'') (field r ''bu'') (field r ''other_type'')
       (field r ''domain'') (field r ''appName'') (field r ''role'')
   \<and> construct_group_name [''env'' \<mapsto> Some ''Production'', ''bu'' \<mapsto> Some ''Finance'',
        ''domain'' \<mapsto> Some ''Sales'', ''appName'' \<mapsto> Some ''CoPilot'', ''role'' \<mapsto> Some ''admins'']
       = Inr ''prod_TMFinance_Sales_CoPilot_admins''
   \<and> construct_group_name [''env'' \<mapsto> Some ''dev'', ''bu'' \<mapsto> Some ''Others'', ''other_type'' \<mapsto> Some ''X'',
        ''domain'' \<mapsto> Some '''', ''appName'' \<mapsto> Some ''App1'', ''role'' \<mapsto> Some ''readers'']
       = Inr ''nprod_TMX_App1_readers''"
proof (intro conjI)
  show "construct_group_name r =
     GroupName_trimmed (field r ''env'') (field r ''bu'') (field r ''other_type'')
       (field r ''domain'') (field r ''appName'') (field r ''role'')"
    by (simp add: construct_group_name_def GroupName_trimmed_def Let_def)
  show "construct_group_name [''env'' \<mapsto> Some ''Production'', ''bu'' \<mapsto> Some ''Finance'',
        ''domain'' \<mapsto> Some ''Sales'', ''appName'' \<mapsto> Some ''CoPilot'', ''role'' \<mapsto> Some ''admins'']
       = Inr ''prod_TMFinance_Sales_CoPilot_admins''"
    by code_simp
  show "construct_group_name [''env'' \<mapsto> Some ''dev'', ''bu'' \<mapsto> Some ''Others'', ''other_type'' \<mapsto> Some ''X'',
        ''domain'' \<mapsto> Some '''', ''appName'' \<mapsto> Some ''App1'', ''role'' \<mapsto> Some ''readers'']
       = Inr ''nprod_TMX_App1_readers''"
    by code_simp
qed
subsection \<open>The request primitive\<close>

lemma transport_failureE:
  "transport_failure a \<Longrightarrow> \<exists>e. a = Raised (RequestException e)"
  by (cases a rule: transport_failure.cases) auto

lemma slept_try_request [simp]:
  "slept (snd (try_request P meth url headers timeout kw h)) = slept h"
  by (auto simp: try_request_def slept_def Let_def split: sum.splits option.splits)

lemma slept_append [simp]: "slept (xs @ ys) = slept xs @ slept ys"
  by (simp add: slept_def)

lemma slept_Slept [simp]: "slept [Slept d] = [d]"
  by (simp add: slept_def)

lemma slept_after_failures:
  "slept (after_failures P meth url headers timeout kw delay h k)
     = slept h @ map (\<lambda>j. delay * 2 ^ j) [0..<k]"
proof (induction k arbitrary: delay h)
  case 0
  show ?case by simp
next
  case (Suc k)
  have "map (\<lambda>j. delay * 2 ^ j) [0..<Suc k]
          = delay # map (\<lambda>j. (delay * 2) * 2 ^ j) [0..<k]"
    by (simp add: upt_rec [of 0 "Suc k"] map_Suc_upt [symmetric] del: upt_Suc)
  then show ?case
    by (simp add: Suc.IH del: upt_Suc)
qed

lemma loop_skip_failures:
  assumes "attempt + k \<le> retries"
    and "\<forall>j<k. transport_failure
           (fst (try_request P meth url headers timeout kw
                   (after_failures P meth url headers timeout kw delay h j)))"
  shows "safe_request_loop P meth url retries headers timeout kw attempt delay h
           = safe_request_loop P meth url retries headers timeout kw (attempt + k)
               (delay * 2 ^ k) (after_failures P meth url headers timeout kw delay h k)"
  using assms
proof (induction k arbitrary: attempt delay h)
  case 0
  show ?case by simp
next
  case (Suc k)
  from Suc.prems(2) have "transport_failure (fst (try_request P meth url headers timeout kw h))"
    by fastforce
  then obtain e where e: "fst (try_request P meth url headers timeout kw h)
                            = Raised (RequestException e)"
    using transport_failureE by blast
  obtain h1 where h1: "try_request P meth url headers timeout kw h
                         = (Raised (RequestException e), h1)"
    using e by (cases "try_request P meth url headers timeout kw h") simp
  have step: "safe_request_loop P meth url retries headers timeout kw attempt delay h
           = safe_request_loop P meth url retries headers timeout kw (attempt + 1)
               (delay * 2) (h1 @ [Slept delay])"
    using Suc.prems(1) h1
    by (subst safe_request_loop.simps) simp
  have rest: "\<forall>j<k. transport_failure
           (fst (try_request P meth url headers timeout kw
                   (after_failures P meth url headers timeout kw (delay * 2)
                      (h1 @ [Slept delay]) j)))"
    using Suc.prems(2) h1 by (auto dest: spec [where x = "Suc j" for j])
  have "safe_request_loop P meth url retries headers timeout kw (attempt + 1)
               (delay * 2) (h1 @ [Slept delay])
        = safe_request_loop P meth url retries headers timeout kw (attempt + 1 + k)
               (delay * 2 * 2 ^ k)
               (after_failures P meth url headers timeout kw (delay * 2)
                  (h1 @ [Slept delay]) k)"
    using Suc.prems(1) rest by (intro Suc.IH) auto
  then show ?case
    using step h1 by (simp add: mult.assoc)
qed


lemma loop_responded:
  assumes "attempt \<le> retries"
    and "try_request P meth url headers timeout kw h = (Responded resp, h1)"
  shows "safe_request_loop P meth url retries headers timeout kw attempt delay h
           = (Inr (Some (outcome_of_response meth url resp)), h1)"
  using assms by (subst safe_request_loop.simps) simp

lemma loop_last_failure:
  assumes "try_request P meth url headers timeout kw h = (Raised (RequestException e), h1)"
  shows "safe_request_loop P meth url retries headers timeout kw retries delay h
           = (Inr (Some \<lparr>status_code = 0, body = JObj [],
                          error = Some (meth @ '' '' @ str_opt url
                            @ '' network error after '' @ str_nat retries
                            @ '' attempts: '' @ e),
                          message = None\<rparr>), h1)"
  using assms by (subst safe_request_loop.simps) simp

lemma loop_returns:
  assumes "attempt + n = retries"
    and "\<forall>j\<le>n. \<not> other_failure
           (fst (try_request P meth url headers timeout kw
                   (after_failures P meth url headers timeout kw delay h j)))"
  shows "\<exists>out h'. safe_request_loop P meth url retries headers timeout kw attempt delay h
           = (Inr (Some out), h')"
  using assms
proof (induction n arbitrary: attempt delay h)
  case 0
  then have nf: "\<not> other_failure (fst (try_request P meth url headers timeout kw h))"
    by fastforce
  obtain a h1 where t: "try_request P meth url headers timeout kw h = (a, h1)"
    by (cases "try_request P meth url headers timeout kw h")
  show ?case
  proof (cases a rule: other_failure.cases)
    case (1 r)
    with t 0 show ?thesis by (simp add: loop_responded)
  next
    case (2 e)
    with t 0 show ?thesis by (simp add: loop_last_failure)
  qed (use nf t in auto)
next
  case (Suc n)
  then have nf: "\<not> other_failure (fst (try_request P meth url headers timeout kw h))"
    by fastforce
  obtain a h1 where t: "try_request P meth url headers timeout kw h = (a, h1)"
    by (cases "try_request P meth url headers timeout kw h")
  show ?case
  proof (cases a rule: other_failure.cases)
    case (1 r)
    with t Suc.prems(1) show ?thesis by (simp add: loop_responded)
  next
    case (2 e)
    have step: "safe_request_loop P meth url retries headers timeout kw attempt delay h
           = safe_request_loop P meth url retries headers timeout kw (attempt + 1)
               (delay * 2) (h1 @ [Slept delay])"
      using Suc.prems(1) t 2 by (subst safe_request_loop.simps) auto
    have rest: "\<forall>j\<le>n. \<not> other_failure
           (fst (try_request P meth url headers timeout kw
                   (after_failures P meth url headers timeout kw (delay * 2)
                      (h1 @ [Slept delay]) j)))"
      using Suc.prems(2) t by (auto dest: spec [where x = "Suc j" for j])
    have "\<exists>out h'. safe_request_loop P meth url retries headers timeout kw (attempt + 1)
               (delay * 2) (h1 @ [Slept delay]) = (Inr (Some out), h')"
      using Suc.prems(1) rest by (intro Suc.IH) auto
    with step show ?thesis by simp
  qed (use nf t in auto)
qed

lemma str_nat_nonempty: "str_nat n \<noteq> []"
  by (subst str_nat.simps) simp

text \<open>
  C5, counterexample. \<open>_safe_request\<close> catches \<open>RequestException\<close> and nothing else.
  When the token provider raises a \<open>KeyError\<close> while the headers are built (the token
  response lacks \<open>access_token\<close>), the first attempt of a call with three attempts
  allowed raises that \<open>KeyError\<close> to the caller: no request is sent, nothing is
  retried and no outcome is returned. The same holds for a \<open>ValueError\<close> raised by
  the HTTP library.
\<close>

theorem safe_request_raises_counterexample:
  "safe_request keyless_token ''GET'' (Some ''u'') 3 None 30 no_kwargs []
     = (Inl (KeyError ''access_token''), [])
   \<and> safe_request (scripted [Raised (ValueError ''unsupported value'')]) ''GET'' (Some ''u'') 3
         None 30 no_kwargs []
       = (Inl (ValueError ''unsupported value''), [Sent get_u])"
  by code_simp

text \<open>
  C5, amended. Let \<open>_safe_request\<close> be called with at least one attempt allowed. If the
  first \<open>k\<close> attempts raise a transport failure and attempt \<open>k + 1\<close>, still within the
  bound, gets a response, the outcome of that response is returned, after sleeps of 2,
  4, ... seconds, one after each failed attempt. If every attempt raises a transport
  failure, the outcome has status code 0 and a non-empty error string, after one sleep
  less than there were attempts. And the call returns an outcome, neither raising nor
  falling off the loop, provided no attempt raises anything but a transport failure:
  any other exception is not caught.
\<close>

theorem safe_request_retries:
  assumes "1 \<le> retries"
  shows
    "(k < retries
        \<and> (\<forall>j<k. transport_failure
               (fst (try_request P meth url headers timeout kw
                       (after_failures P meth url headers timeout kw 2 h j))))
        \<and> try_request P meth url headers timeout kw
              (after_failures P meth url headers timeout kw 2 h k) = (Responded resp, h1)
      \<longrightarrow> safe_request P meth url retries headers timeout kw h
            = (Inr (Some (outcome_of_response meth url resp)), h1)
          \<and> slept h1 = slept h @ map (\<lambda>j. 2 * 2 ^ j) [0..<k])
   \<and> ((\<forall>j<retries. transport_failure
               (fst (try_request P meth url headers timeout kw
                       (after_failures P meth url headers timeout kw 2 h j))))
      \<longrightarrow> (\<exists>out msg h'. safe_request P meth url retries headers timeout kw h
                 = (Inr (Some out), h')
              \<and> status_code out = 0 \<and> error out = Some msg \<and> msg \<noteq> []
              \<and> slept h' = slept h @ map (\<lambda>j. 2 * 2 ^ j) [0..<retries - 1]))
   \<and> ((\<forall>j<retries. \<not> other_failure
               (fst (try_request P meth url headers timeout kw
                       (after_failures P meth url headers timeout kw 2 h j))))
      \<longrightarrow> (\<exists>out h'. safe_request P meth url retries headers timeout kw h
                 = (Inr (Some out), h')))"
proof (intro conjI impI)
  assume a: "k < retries
        \<and> (\<forall>j<k. transport_failure
               (fst (try_request P meth url headers timeout kw
                       (after_failures P meth url headers timeout kw 2 h j))))
        \<and> try_request P meth url headers timeout kw
              (after_failures P meth url headers timeout kw 2 h k) = (Responded resp, h1)"
  then have "safe_request_loop P meth url retries headers timeout kw 1 2 h
           = safe_request_loop P meth url retries headers timeout kw (1 + k)
               (2 * 2 ^ k) (after_failures P meth url headers timeout kw 2 h k)"
    by (intro loop_skip_failures) auto
  also have "\<dots> = (Inr (Some (outcome_of_response meth url resp)), h1)"
    using a by (intro loop_responded) auto
  finally show "safe_request P meth url retries headers timeout kw h
            = (Inr (Some (outcome_of_response meth url resp)), h1)"
    by (simp add: safe_request_def)
  have "slept h1 = slept (snd (try_request P meth url headers timeout kw
              (after_failures P meth url headers timeout kw 2 h k)))"
    using a by simp
  then show "slept h1 = slept h @ map (\<lambda>j. 2 * 2 ^ j) [0..<k]"
    by (simp add: slept_after_failures)
next
  assume a: "\<forall>j<retries. transport_failure
               (fst (try_request P meth url headers timeout kw
                       (after_failures P meth url headers timeout kw 2 h j)))"
  define n where "n = retries - 1"
  have n: "1 + n = retries" using assms by (simp add: n_def)
  let ?h = "after_failures P meth url headers timeout kw 2 h n"
  have "transport_failure (fst (try_request P meth url headers timeout kw ?h))"
    using a n by auto
  then obtain e where "fst (try_request P meth url headers timeout kw ?h)
                         = Raised (RequestException e)"
    using transport_failureE by blast
  then obtain h' where t: "try_request P meth url headers timeout kw ?h
                         = (Raised (RequestException e), h')"
    by (cases "try_request P meth url headers timeout kw ?h") simp
  have "safe_request_loop P meth url retries headers timeout kw 1 2 h
           = safe_request_loop P meth url retries headers timeout kw (1 + n)
               (2 * 2 ^ n) ?h"
    using a n by (intro loop_skip_failures) auto
  also have "\<dots> = (Inr (Some \<lparr>status_code = 0, body = JObj [],
                          error = Some (meth @ '' '' @ str_opt url
                            @ '' network error after '' @ str_nat retries
                            @ '' attempts: '' @ e),
                          message = None\<rparr>), h')"
    using t n loop_last_failure [of P meth url headers timeout kw ?h e h' retries "2 * 2 ^ n"]
    by simp
  finally have r: "safe_request P meth url retries headers timeout kw h
       = (Inr (Some \<lparr>status_code = 0, body = JObj [],
                          error = Some (meth @ '' '' @ str_opt url
                            @ '' network error after '' @ str_nat retries
                            @ '' attempts: '' @ e),
                          message = None\<rparr>), h')"
    by (simp add: safe_request_def)
  have "slept h' = slept (snd (try_request P meth url headers timeout kw ?h))"
    using t by simp
  then have "slept h' = slept h @ map (\<lambda>j. 2 * 2 ^ j) [0..<retries - 1]"
    by (simp add: slept_after_failures n_def)
  with r show "\<exists>out msg h'. safe_request P meth url retries headers timeout kw h
                 = (Inr (Some out), h')
              \<and> status_code out = 0 \<and> error out = Some msg \<and> msg \<noteq> []
              \<and> slept h' = slept h @ map (\<lambda>j. 2 * 2 ^ j) [0..<retries - 1]"
    by simp
next
  assume a: "\<forall>j<retries. \<not> other_failure
               (fst (try_request P meth url headers timeout kw
                       (after_failures P meth url headers timeout kw 2 h j)))"
  define n where "n = retries - 1"
  have n: "1 + n = retries" using assms by (simp add: n_def)
  have "\<exists>out h'. safe_request_loop P meth url retries headers timeout kw 1 2 h
           = (Inr (Some out), h')"
    using n a by (intro loop_returns [where n = n]) auto
  then show "\<exists>out h'. safe_request P meth url retries headers timeout kw h
                 = (Inr (Some out), h')"
    by (simp add: safe_request_def)
qed

lemma all_less_2: "(\<forall>j<2. Q (j::nat)) = (Q 0 \<and> Q 1)"
  by (auto simp: numeral_2_eq_2 less_Suc_eq)

lemma all_less_3: "(\<forall>j<3. Q (j::nat)) = (Q 0 \<and> Q 1 \<and> Q 2)"
  by (auto simp: numeral_3_eq_3 numeral_2_eq_2 less_Suc_eq)

lemmas eval_try =
  try_request_def scripted_def script_transport_def auth_headers_def sent_def
  timeout_twice_then_ok_def get_u_def Let_def

text \<open>
  C5, amended, witness: two timeouts and then a 200 within three attempts; and a platform that
  refuses every connection.
\<close>

theorem safe_request_retries_witness:
  "safe_request (scripted timeout_twice_then_ok) ''GET'' (Some ''u'') 3 None 30 no_kwargs []
     = (Inr (Some \<lparr>status_code = 200, body = JObj [(''id'', JStr ''7'')],
                   error = None, message = None\<rparr>),
        [Sent get_u, Slept 2, Sent get_u, Slept 4, Sent get_u])
   \<and> (\<exists>out msg h'. safe_request (scripted []) ''GET'' (Some ''u'') 3 None 30 no_kwargs []
          = (Inr (Some out), h')
        \<and> status_code out = 0 \<and> error out = Some msg \<and> msg \<noteq> [] \<and> slept h' = [2, 4])"
proof -
  let ?P = "scripted timeout_twice_then_ok"
  let ?resp = "\<lparr>resp_status_code = 200, resp_json = Some (JObj [(''id'', JStr ''7'')]),
                 resp_text = []\<rparr>"
  have r: "(1::nat) \<le> 3" by simp
  have af2: "after_failures ?P ''GET'' (Some ''u'') None 30 no_kwargs 2 [] 2
               = [Sent get_u, Slept 2, Sent get_u, Slept 4]"
    by (simp add: numeral_2_eq_2 eval_try)
  have af1: "after_failures ?P ''GET'' (Some ''u'') None 30 no_kwargs 2 [] 1
               = [Sent get_u, Slept 2]"
    by (simp add: eval_try)
  have pre: "(2::nat) < 3
        \<and> (\<forall>j<2. transport_failure
               (fst (try_request ?P ''GET'' (Some ''u'') None 30 no_kwargs
                       (after_failures ?P ''GET'' (Some ''u'') None 30 no_kwargs 2 [] j))))
        \<and> try_request ?P ''GET'' (Some ''u'') None 30 no_kwargs
              (after_failures ?P ''GET'' (Some ''u'') None 30 no_kwargs 2 [] 2)
            = (Responded ?resp, [Sent get_u, Slept 2, Sent get_u, Slept 4, Sent get_u])"
    unfolding all_less_2 af2 af1 by (simp add: eval_try)
  have one: "safe_request ?P ''GET'' (Some ''u'') 3 None 30 no_kwargs []
     = (Inr (Some (outcome_of_response ''GET'' (Some ''u'') ?resp)),
        [Sent get_u, Slept 2, Sent get_u, Slept 4, Sent get_u])"
    using safe_request_retries [OF r, of 2 ?P "''GET''" "Some ''u''" None 30 no_kwargs "[]"
        ?resp "[Sent get_u, Slept 2, Sent get_u, Slept 4, Sent get_u]"] pre
    by blast
  let ?Q = "scripted []"
  have af2': "after_failures ?Q ''GET'' (Some ''u'') None 30 no_kwargs 2 [] 2
               = [Sent get_u, Slept 2, Sent get_u, Slept 4]"
    by (simp add: numeral_2_eq_2 eval_try)
  have af1': "after_failures ?Q ''GET'' (Some ''u'') None 30 no_kwargs 2 [] 1
               = [Sent get_u, Slept 2]"
    by (simp add: eval_try)
  have pre': "\<forall>j<3. transport_failure
               (fst (try_request ?Q ''GET'' (Some ''u'') None 30 no_kwargs
                       (after_failures ?Q ''GET'' (Some ''u'') None 30 no_kwargs 2 [] j)))"
    unfolding all_less_3 af2' af1' by (simp add: eval_try)
  have two: "\<exists>out msg h'. safe_request ?Q ''GET'' (Some ''u'') 3 None 30 no_kwargs []
          = (Inr (Some out), h')
        \<and> status_code out = 0 \<and> error out = Some msg \<and> msg \<noteq> []
        \<and> slept h' = slept [] @ map (\<lambda>j. 2 * 2 ^ j) [0..<3 - 1]"
    using safe_request_retries [OF r, of 0 ?Q "''GET''" "Some ''u''" None 30 no_kwargs "[]"]
      pre'
    by blast
  have "slept [] @ map (\<lambda>j. 2 * 2 ^ j) [0..<3 - 1] = [2, 4::nat]"
    by (simp add: slept_def numeral_2_eq_2)
  with one two show ?thesis
    by (simp add: outcome_of_response_def)
qed

lemma outcome_of_response_error:
  "(error (outcome_of_response meth url resp) \<noteq> None)
     = (status_code (outcome_of_response meth url resp) \<notin> {200, 201, 204})"
  by (simp add: outcome_of_response_def split: option.splits)

lemma loop_outcome_cases:
  "safe_request_loop P meth url retries headers timeout kw attempt delay h
      = (Inr (Some out), h') \<Longrightarrow>
   (\<exists>h0 req resp. h' = h0 @ [Sent req] \<and> requests_request P h0 req = Responded resp
       \<and> out = outcome_of_response meth url resp)
   \<or> (\<exists>e. out = \<lparr>status_code = 0, body = JObj [],
                  error = Some (meth @ '' '' @ str_opt url @ '' network error after ''
                                 @ str_nat retries @ '' attempts: '' @ e),
                  message = None\<rparr>)"
proof (induction P meth url retries headers timeout kw attempt delay h
       rule: safe_request_loop.induct)
  case (1 P meth url retries headers timeout kw attempt delay h)
  from "1.prems" have le: "\<not> retries < attempt"
    by (subst (asm) safe_request_loop.simps) (auto split: if_splits)
  obtain a h1 where t: "try_request P meth url headers timeout kw h = (a, h1)"
    by (cases "try_request P meth url headers timeout kw h")
  show ?case
  proof (cases a)
    case (Responded resp)
    with t le "1.prems" have o: "out = outcome_of_response meth url resp" and "h' = h1"
      by (subst (asm) safe_request_loop.simps, simp)+
    from t Responded obtain hs where
      "h1 = h @ [Sent \<lparr>req_method = meth, req_url = url, req_headers = hs,
                       req_timeout = timeout, req_kwargs = kw\<rparr>]"
      "requests_request P h \<lparr>req_method = meth, req_url = url, req_headers = hs,
                       req_timeout = timeout, req_kwargs = kw\<rparr> = Responded resp"
      by (auto simp: try_request_def Let_def split: sum.splits)
    with o \<open>h' = h1\<close> show ?thesis by blast
  next
    case (Raised e)
    show ?thesis
    proof (cases e)
      case (RequestException m)
      show ?thesis
      proof (cases "attempt = retries")
        case True
        with t le Raised RequestException "1.prems" show ?thesis
          by (subst (asm) safe_request_loop.simps) auto
      next
        case False
        with t le Raised RequestException "1.prems"
        have "safe_request_loop P meth url retries headers timeout kw (attempt + 1)
                (delay * 2) (h1 @ [Slept delay]) = (Inr (Some out), h')"
          by (subst (asm) safe_request_loop.simps) auto
        then show ?thesis
          by (rule "1.IH" [OF le t [symmetric] Raised RequestException False])
      qed
    qed (use t le Raised "1.prems" in
          \<open>(subst (asm) safe_request_loop.simps, simp)+\<close>)
  qed
qed

text \<open>
  C6, counterexample. A 202 response is a 2xx status and no transport failure occurred,
  yet the outcome carries an error: the code's success set is 200, 201 and 204.
\<close>

theorem outcome_2xx_counterexample:
  "safe_request (scripted accepted_202) ''POST'' (Some ''u'') 3 None 30 no_kwargs []
     = (Inr (Some \<lparr>status_code = 202, body = JObj [(''id'', JStr ''7'')],
                   error = Some ''POST u failed: 202'', message = None\<rparr>),
        [Sent (get_u\<lparr>req_method := ''POST''\<rparr>)])"
  by code_simp

text \<open>
  C6, amended. Every outcome \<open>_safe_request\<close> returns has a body, and its error is set
  exactly when its status code is none of 200, 201 and 204. The outcome is either built
  from the response just received (200 and 201: the parsed body, or the empty body
  with the note \<open>Empty body\<close> when parsing fails; 204: the empty body with the note
  \<open>No content\<close>, whatever the response holds), or it is the outcome of exhausted
  transport failures, with status code 0 and the empty body.
\<close>

theorem safe_request_outcome_invariant:
  assumes "safe_request P meth url retries headers timeout kw h = (Inr (Some out), h')"
  shows "(error out \<noteq> None) = (status_code out \<notin> {200, 201, 204})
     \<and> ((\<exists>h0 req resp. h' = h0 @ [Sent req] \<and> requests_request P h0 req = Responded resp
            \<and> status_code out = resp_status_code resp
            \<and> (resp_status_code resp \<in> {200, 201} \<longrightarrow>
                 body out = (case resp_json resp of Some j \<Rightarrow> j | None \<Rightarrow> JObj [])
                 \<and> message out
                     = (case resp_json resp of Some j \<Rightarrow> None | None \<Rightarrow> Some ''Empty body''))
            \<and> (resp_status_code resp = 204 \<longrightarrow>
                 body out = JObj [] \<and> message out = Some ''No content''))
        \<or> (status_code out = 0 \<and> body out = JObj []))"
proof -
  from assms loop_outcome_cases [of P meth url retries headers timeout kw 1 2 h out h']
  consider (resp) h0 req resp where "h' = h0 @ [Sent req]"
      "requests_request P h0 req = Responded resp" "out = outcome_of_response meth url resp"
    | (net) e where "out = \<lparr>status_code = 0, body = JObj [],
                  error = Some (meth @ '' '' @ str_opt url @ '' network error after ''
                                 @ str_nat retries @ '' attempts: '' @ e),
                  message = None\<rparr>"
    unfolding safe_request_def by blast
  then show ?thesis
  proof cases
    case resp
    have 1: "(error out \<noteq> None) = (status_code out \<notin> {200, 201, 204})"
      unfolding resp(3) by (rule outcome_of_response_error)
    have 2: "status_code out = resp_status_code resp"
      unfolding resp(3) by (simp add: outcome_of_response_def split: option.splits)
    have 3: "resp_status_code resp \<in> {200, 201} \<longrightarrow>
                 body out = (case resp_json resp of Some j \<Rightarrow> j | None \<Rightarrow> JObj [])
                 \<and> message out
                     = (case resp_json resp of Some j \<Rightarrow> None | None \<Rightarrow> Some ''Empty body'')"
      unfolding resp(3) by (simp add: outcome_of_response_def split: option.splits)
    have 4: "resp_status_code resp = 204 \<longrightarrow>
                 body out = JObj [] \<and> message out = Some ''No content''"
      unfolding resp(3) by (simp add: outcome_of_response_def)
    from 1 2 3 4 resp(1,2) show ?thesis by blast
  next
    case net
    then show ?thesis by simp
  qed
qed

text \<open>C6, witness: the run with two timeouts and a 200.\<close>

theorem safe_request_outcome_invariant_witness:
  "safe_request (scripted timeout_twice_then_ok) ''GET'' (Some ''u'') 3 None 30 no_kwargs []
     = (Inr (Some \<lparr>status_code = 200, body = JObj [(''id'', JStr ''7'')],
                   error = None, message = None\<rparr>),
        [Sent get_u, Slept 2, Sent get_u, Slept 4, Sent get_u])
   \<and> (error \<lparr>status_code = 200, body = JObj [(''id'', JStr ''7'')],
               error = None, message = None\<rparr> \<noteq> None)
      = ((200::int) \<notin> {200, 201, 204})"
proof -
  have run: "safe_request (scripted timeout_twice_then_ok) ''GET'' (Some ''u'') 3 None 30
       no_kwargs []
     = (Inr (Some \<lparr>status_code = 200, body = JObj [(''id'', JStr ''7'')],
                   error = None, message = None\<rparr>),
        [Sent get_u, Slept 2, Sent get_u, Slept 4, Sent get_u])"
    by code_simp
  from safe_request_outcome_invariant [OF run] run show ?thesis
    by simp
qed
subsection \<open>The audit trail\<close>

lemma file_rows_append_to_file:
  "file_write_ok P (events s) \<Longrightarrow>
     file_rows (audit_file (snd (append_to_file P r s))) = file_rows (audit_file s) @ [r]"
  by (simp add: append_to_file_def file_rows_def split: option.splits)

lemma delta_table_append_to_file:
  "delta_table (snd (append_to_file P r s)) = delta_table s"
  by (simp add: append_to_file_def)

lemma build_audit_row_json:
  "build_audit_row P a p i st d rc (map_option Json rb) (map_option Json rp) s
     = Inr (audit_row_json P a p i st d rc rb rp s)"
  by (cases rb; cases rp; cases "ctx_request_payload (audit_ctx s)";
      cases "ctx_response_body (audit_ctx s)")
     (simp_all add: build_audit_row_def audit_row_json_def dumps_or_empty_def dumps_def
        json_text_def if_not_none_def Let_def)

text \<open>
  On JSON payloads \<open>append_audit\<close> returns, and \<open>append_audit_json\<close> is the state it
  reaches: this is what stands for the call inside the operations.
\<close>

lemma append_audit_json_returns:
  "append_audit P a p i st d rc (map_option Json rb) (map_option Json rp) s
     = Inr (append_audit_json P a p i st d rc rb rp s)"
  by (simp add: append_audit_def append_audit_json_def build_audit_row_json Let_def)

text \<open>
  The fallback, for a call that gets as far as storing. When the structured store is
  the configured backend, its write fails and the file is writable, the file gains
  exactly the record of this call and the table is unchanged. And whenever the file is
  writable, the record of this call is stored exactly once, in the table or in the
  file, and no earlier record is lost.
\<close>

lemma append_audit_json_fallback:
  "(AUDIT_MODE P = ''delta'' \<and> is_databricks_env P
      \<and> \<not> primary_write_ok P (events s)
            (audit_row_json P action principal_type identifier status details
               response_code response_body request_payload s)
      \<and> file_write_ok P (events s) \<longrightarrow>
      file_rows (audit_file (append_audit_json P action principal_type identifier status details
                                response_code response_body request_payload s))
        = file_rows (audit_file s)
            @ [audit_row_json P action principal_type identifier status details
                 response_code response_body request_payload s]
      \<and> delta_table (append_audit_json P action principal_type identifier status details
                         response_code response_body request_payload s)
          = delta_table s)
   \<and> (file_write_ok P (events s) \<longrightarrow>
       (delta_table (append_audit_json P action principal_type identifier status details
                         response_code response_body request_payload s)
          = delta_table s
              @ [audit_row_json P action principal_type identifier status details
                   response_code response_body request_payload s]
        \<and> file_rows (audit_file (append_audit_json P action principal_type identifier status
                                     details response_code response_body request_payload s))
            = file_rows (audit_file s))
       \<or> (delta_table (append_audit_json P action principal_type identifier status details
                         response_code response_body request_payload s)
            = delta_table s
          \<and> file_rows (audit_file (append_audit_json P action principal_type identifier status
                                       details response_code response_body request_payload s))
              = file_rows (audit_file s)
                  @ [audit_row_json P action principal_type identifier status details
                       response_code response_body request_payload s]))"
  by (auto simp: append_audit_json_def store_audit_row_def insert_audit_sql_def
        ensure_audit_table_sql_def
        execute_def primary_write_ok_def Let_def file_rows_append_to_file
        delta_table_append_to_file)

text \<open>
  C10, the code at the failing input. \<open>append_audit\<close> writes its payloads with
  \<open>json.dumps\<close> while it builds the record, before the \<open>try\<close> that guards the
  stores. Handed a request payload that \<open>json.dumps\<close> refuses, or a response body it
  refuses after a payload it accepts, the call raises \<open>TypeError\<close> to its caller,
  whatever the backends and the state are; no record is built and none is stored.
\<close>

theorem append_audit_raises:
  "append_audit P action principal_type identifier status details response_code response_body
       (Some (Opaque t)) s
     = Inl (TypeError (''Object of type '' @ t @ '' is not JSON serializable''))
   \<and> append_audit P action principal_type identifier status details response_code
         (Some (Opaque t)) (Some (Json j)) s
       = Inl (TypeError (''Object of type '' @ t @ '' is not JSON serializable''))"
  by (simp add: append_audit_def build_audit_row_def dumps_or_empty_def dumps_def
        if_not_none_def Let_def)

subsection \<open>What the operations send\<close>

lemma grows_refl [simp]: "grows Q h h"
  by (simp add: grows_def sent_def)

lemma grows_trans: "grows Q h h1 \<Longrightarrow> grows Q h1 h2 \<Longrightarrow> grows Q h h2"
  by (auto simp: grows_def sent_def)

lemma grows_weaken: "grows Q h h' \<Longrightarrow> (\<And>q. Q q \<Longrightarrow> Q' q) \<Longrightarrow> grows Q' h h'"
  by (auto simp: grows_def list_all_iff)

lemma grows_Sent: "Q q \<Longrightarrow> grows Q h (h @ [Sent q])"
  by (simp add: grows_def sent_def)

lemma grows_Slept [simp]: "grows Q h (h @ [Slept d])"
  by (simp add: grows_def sent_def)

lemma grows_Audited [simp]: "grows Q h (h @ [Audited r])"
  by (simp add: grows_def sent_def)

lemma grows_try_request:
  "try_request P meth url headers timeout kw h = (a, h1) \<Longrightarrow>
     grows (\<lambda>q. req_method q = meth \<and> req_url q = url \<and> req_kwargs q = kw) h h1"
  by (auto simp: try_request_def Let_def grows_Sent split: sum.splits option.splits if_splits)

lemma grows_safe_request_loop:
  "safe_request_loop P meth url retries headers timeout kw attempt delay h = (r, h') \<Longrightarrow>
     grows (\<lambda>q. req_method q = meth \<and> req_url q = url \<and> req_kwargs q = kw) h h'"
proof (induction P meth url retries headers timeout kw attempt delay h
       rule: safe_request_loop.induct)
  case (1 P meth url retries headers timeout kw attempt delay h)
  let ?Q = "\<lambda>q. req_method q = meth \<and> req_url q = url \<and> req_kwargs q = kw"
  show ?case
  proof (cases "retries < attempt")
    case True
    with "1.prems" show ?thesis
      by (subst (asm) safe_request_loop.simps) simp
  next
    case False
    obtain a h1 where t: "try_request P meth url headers timeout kw h = (a, h1)"
      by (cases "try_request P meth url headers timeout kw h")
    have g1: "grows ?Q h h1" by (rule grows_try_request [OF t])
    show ?thesis
    proof (cases a)
      case (Responded resp)
      with t False "1.prems" have "h' = h1"
        by (subst (asm) safe_request_loop.simps) simp
      with g1 show ?thesis by simp
    next
      case (Raised e)
      show ?thesis
      proof (cases "\<exists>m. e = RequestException m \<and> attempt \<noteq> retries")
        case True
        then obtain m where m: "e = RequestException m" "attempt \<noteq> retries" by blast
        with t False Raised "1.prems"
        have "safe_request_loop P meth url retries headers timeout kw (attempt + 1)
                (delay * 2) (h1 @ [Slept delay]) = (r, h')"
          by (subst (asm) safe_request_loop.simps) auto
        then have "grows ?Q (h1 @ [Slept delay]) h'"
          by (rule "1.IH" [OF False t [symmetric] Raised m])
        with g1 show ?thesis
          by (meson grows_Slept grows_trans)
      next
        case stop: False
        with t False Raised "1.prems" have "h' = h1"
          by (subst (asm) safe_request_loop.simps) (auto split: exn.splits if_splits)
        with g1 show ?thesis by simp
      qed
    qed
  qed
qed

lemma grows_safe_request:
  "safe_request P meth url retries headers timeout kw h = (r, h') \<Longrightarrow>
     grows (\<lambda>q. req_method q = meth \<and> req_url q = url \<and> req_kwargs q = kw) h h'"
  unfolding safe_request_def by (rule grows_safe_request_loop)

lemma grows_scim_call:
  "scim_call P meth path kw s = (r, s') \<Longrightarrow>
     grows (\<lambda>q. req_method q = meth) (events s) (events s')"
  by (auto simp: scim_call_def on_events_def split: sum.splits prod.splits
           dest!: grows_safe_request elim: grows_weaken)

lemma grows_ws_call:
  "ws_call P meth path kw s = (r, s') \<Longrightarrow>
     grows (\<lambda>q. req_method q = meth \<and> req_url q = ws_url P path) (events s) (events s')"
  by (auto simp: ws_call_def on_events_def split: sum.splits prod.splits
           dest!: grows_safe_request elim: grows_weaken)

lemma events_store_audit_row [simp]: "events (store_audit_row P r s) = events s"
  by (simp add: store_audit_row_def append_to_file_def insert_audit_sql_def
        ensure_audit_table_sql_def execute_def split: sum.splits)

lemma events_append_audit_json:
  "events (append_audit_json P a p i st d rc rb rp s)
     = events s @ [Audited (audit_row_json P a p i st d rc rb rp s)]"
  by (simp add: append_audit_json_def Let_def)

lemma grows_append_audit_json [simp]:
  "grows Q (events s) (events (append_audit_json P a p i st d rc rb rp s))"
  by (simp add: events_append_audit_json)

lemma grows_audit [simp]: "grows Q (events s) (events (audit P a p i st d s))"
  by (simp add: audit_def)

lemma audited_row_fields [simp]:
  "a_status (audit_row_json P a p i st d rc rb rp s) = st"
  "a_action (audit_row_json P a p i st d rc rb rp s) = a"
  by (simp_all add: audit_row_json_def Let_def)

lemma events_audit:
  "events (audit P a p i st d s)
     = events s @ [Audited (audit_row_json P a p i st d None None None s)]"
  by (simp add: audit_def events_append_audit_json)

lemma grows_scim_list_users:
  "scim_list_users P f s = (r, s') \<Longrightarrow> grows is_get (events s) (events s')"
  unfolding scim_list_users_def by (rule grows_scim_call)

lemma grows_scim_list_groups:
  "scim_list_groups P f s = (r, s') \<Longrightarrow> grows is_get (events s) (events s')"
  unfolding scim_list_groups_def by (rule grows_scim_call)

lemma grows_find_user_by_email:
  assumes "find_user_by_email P email s = (u, s')"
  shows "grows is_get (events s) (events s')"
proof (cases "email = []")
  case True
  with assms show ?thesis by (simp add: find_user_by_email_def)
next
  case False
  let ?f1 = "Some (''userName eq '' @ dquote @ email @ dquote)"
  let ?f2 = "Some (''emails.value eq '' @ dquote @ email @ dquote)"
  obtain r1 s1 where l1: "scim_list_users P ?f1 s = (r1, s1)"
    by (cases "scim_list_users P ?f1 s")
  have g1: "grows is_get (events s) (events s1)"
    by (rule grows_scim_list_users [OF l1])
  obtain r2 s2 where l2: "scim_list_users P ?f2 s1 = (r2, s2)"
    by (cases "scim_list_users P ?f2 s1")
  have g2: "grows is_get (events s) (events s2)"
    using g1 grows_scim_list_users [OF l2] by (rule grows_trans)
  from assms False l1 l2 have "s' = s1 \<or> s' = s2"
    by (auto simp: find_user_by_email_def split: sum.splits option.splits)
  with g1 g2 show ?thesis by blast
qed

lemma grows_get_user_id_by_email:
  "get_user_id_by_email P email s = (r, s') \<Longrightarrow> grows is_get (events s) (events s')"
  by (auto simp: get_user_id_by_email_def split: prod.splits dest: grows_find_user_by_email)

lemma grows_find_group_by_display_name:
  assumes "find_group_by_display_name P name s = (g, s')"
  shows "grows is_get (events s) (events s')"
proof (cases "name = []")
  case True
  with assms show ?thesis by (simp add: find_group_by_display_name_def)
next
  case False
  let ?f = "Some (''displayName eq '' @ dquote @ name @ dquote)"
  obtain r1 s1 where l1: "scim_list_groups P ?f s = (r1, s1)"
    by (cases "scim_list_groups P ?f s")
  from assms False l1 have "s' = s1"
    by (auto simp: find_group_by_display_name_def split: sum.splits option.splits)
  with grows_scim_list_groups [OF l1] show ?thesis by simp
qed

lemma grows_resolve_members:
  "resolve_members P ms objs missing s = (r, s') \<Longrightarrow> grows is_get (events s) (events s')"
proof (induction ms arbitrary: objs missing s)
  case Nil
  then show ?case by simp
next
  case (Cons m ms)
  obtain u s1 where g: "get_user_id_by_email P m s = (u, s1)"
    by (cases "get_user_id_by_email P m s")
  have g1: "grows is_get (events s) (events s1)"
    by (rule grows_get_user_id_by_email [OF g])
  show ?case
  proof (cases u)
    case (Inl e)
    with Cons.prems g g1 show ?thesis by simp
  next
    case (Inr uid)
    with Cons.prems g have
      "resolve_members P ms (objs @ [JObj [(''value'', uid)]]) missing s1 = (r, s')
       \<or> resolve_members P ms objs (missing @ [m]) s1 = (r, s')"
      by (simp split: if_splits)
    then have "grows is_get (events s1) (events s')"
      using Cons.IH by blast
    with g1 show ?thesis by (rule grows_trans)
  qed
qed

subsection \<open>The per-row boundary\<close>

lemma others_row_name:
  "construct_group_name others_row
     = Inl (ValueError (''other_type is required when bu is '' @ apostrophe @ ''Others''
                          @ apostrophe))"
  by code_simp

lemma others_row_action: "py_upper (py_strip (field others_row ''action'')) = Some ''CREATE_GROUP''"
  by code_simp

lemma others_row_failure_identifier:
  "failure_identifier others_row = construct_group_name others_row"
  by code_simp

text \<open>
  C9, the code at the failing input. For a \<open>CREATE_GROUP\<close> row whose business unit is
  \<open>Others\<close> with a blank override and no \<open>user_email\<close>, on every platform and in
  every state: the handler raises while it constructs the group name; the \<open>except\<close>
  clause of \<open>process_row\<close> constructs the name again for the identifier, which raises
  again; and that \<open>ValueError\<close> leaves \<open>process_row\<close>. The state is as before: no
  \<open>FAILED\<close> record is written and no result is returned.
\<close>

theorem process_row_escapes:
  "process_row P ix others_row s
     = (Inl (ValueError (''other_type is required when bu is '' @ apostrophe @ ''Others''
                           @ apostrophe)), s)"
  by (simp add: process_row_def others_row_action dispatch_def create_group_handler_def
        others_row_name others_row_failure_identifier)

subsection \<open>Member removal\<close>

text \<open>
  C4, the code at the failing input. Three members are to be removed from an existing
  group; the directory knows the first two and finds nobody for the third. The third
  member is not skipped: its own text \<open>ghost@x.org\<close> is taken as the user id, a
  removal patch for that id is sent to the group like the two before it, the member is
  recorded as \<open>removed\<close> and audited as \<open>SUCCESS\<close>, and the aggregate status is
  \<open>removed_all\<close>, with three \<open>removed\<close> entries and none \<open>skipped\<close>.
\<close>

theorem remove_members_never_skips:
  "fst removal_run
     = Inr (JObj [(''status'', JStr ''removed_all''),
                  (''results'', JArr
                     [JObj [(''member'', JStr ''a@x.org''), (''id'', JStr ''u1''),
                            (''status'', JStr ''removed'')],
                      JObj [(''member'', JStr ''b@x.org''), (''id'', JStr ''u2''),
                            (''status'', JStr ''removed'')],
                      JObj [(''member'', JStr ''ghost@x.org''), (''id'', JStr ''ghost@x.org''),
                            (''status'', JStr ''removed'')]])])
   \<and> map req_method (sent (events (snd removal_run)))
       = [''GET'', ''GET'', ''PATCH'', ''GET'', ''PATCH'', ''GET'', ''GET'', ''PATCH'']
   \<and> map (\<lambda>q. (req_url q, json (req_kwargs q)))
         (filter (\<lambda>q. req_method q = ''PATCH'') (sent (events (snd removal_run))))
       = [(Some ''https://acct/api/2.1/accounts/a1/scim/v2/Groups/g1'',
           Some (remove_patch (scripted two_known_one_ghost) (JStr ''u1''))),
          (Some ''https://acct/api/2.1/accounts/a1/scim/v2/Groups/g1'',
           Some (remove_patch (scripted two_known_one_ghost) (JStr ''u2''))),
          (Some ''https://acct/api/2.1/accounts/a1/scim/v2/Groups/g1'',
           Some (remove_patch (scripted two_known_one_ghost) (JStr ''ghost@x.org'')))]
   \<and> map a_status (audited (events (snd removal_run))) = [''SUCCESS'', ''SUCCESS'', ''SUCCESS'']"
  by code_simp

subsection \<open>Project onboarding and compute provisioning\<close>








lemma sent_map_Audited [simp]: "sent (map Audited rows) = []"
  by (induction rows) (simp_all add: sent_def)


text \<open>
  C7, the code at the failing input. In a workspace that already lists a cluster named
  \<open>App1\<close>, which \<open>get_cluster_id\<close> finds, \<open>create_all_purpose_cluster\<close> for
  \<open>App1\<close> sends exactly one request, the creating \<open>POST\<close>, and returns the id of the
  new cluster: nothing is looked up first.
\<close>

theorem create_cluster_without_lookup:
  "fst (get_cluster_id workspace_with_cluster ''App1'' initial_state) = Inr (JStr ''c1'')
   \<and> fst (create_all_purpose_cluster workspace_with_cluster ''App1'' (JStr ''p1'') ''m5.large''
            (Some ''3'') ''dev'' [] initial_state) = Inr (JStr ''c2'')
   \<and> map req_method
        (sent (events (snd (create_all_purpose_cluster workspace_with_cluster ''App1''
                              (JStr ''p1'') ''m5.large'' (Some ''3'') ''dev'' []
                              initial_state)))) = [''POST'']
   \<and> list_all creates_cluster
        (sent (events (snd (create_all_purpose_cluster workspace_with_cluster ''App1''
                              (JStr ''p1'') ''m5.large'' (Some ''3'') ''dev'' []
                              initial_state))))"
  by code_simp

subsection \<open>User creation\<close>

lemma url_users: "url_of (directory_platform d0) (users_path (directory_platform d0))
                    = Inr directory_url"
  by (simp add: url_of_def users_path_def directory_platform_def scripted_def rstrip_slash_def
        str_opt_def directory_url_def)

lemma sent_snoc [simp]: "sent (h @ [Sent q]) = sent h @ [q]"
  "sent (h @ [Audited a]) = sent h" "sent (h @ [Slept n]) = sent h"
  by (simp_all add: sent_def)

lemma replay_snoc [simp]: "replay d (qs @ [q]) = snd (serve (replay d qs) q)"
  by (simp add: replay_def)

lemma scim_call_directory:
  "scim_call (directory_platform d0) meth (users_path (directory_platform d0)) kw s
     = (let q = \<lparr>req_method = meth, req_url = Some directory_url,
                 req_headers = [(''Authorization'', ''Bearer t''),
                                (''Content-Type'', ''application/json'')],
                 req_timeout = 12, req_kwargs = kw\<rparr>
        in (Inr (Some (outcome_of_response meth (Some directory_url)
                         (fst (serve (directory_now d0 s) q)))),
            s\<lparr>events := events s @ [Sent q]\<rparr>))"
proof -
  let ?P = "directory_platform d0"
  let ?q = "\<lparr>req_method = meth, req_url = Some directory_url,
                 req_headers = [(''Authorization'', ''Bearer t''),
                                (''Content-Type'', ''application/json'')],
                 req_timeout = 12, req_kwargs = kw\<rparr>"
  have t: "try_request ?P meth (Some directory_url) None FAST_TIMEOUT_SECS kw (events s)
             = (Responded (fst (serve (directory_now d0 s) ?q)), events s @ [Sent ?q])"
    by (simp add: try_request_def auth_headers_def directory_platform_def scripted_def
          FAST_TIMEOUT_SECS_def directory_now_def Let_def)
  have "safe_request ?P meth (Some directory_url) FAST_RETRIES None FAST_TIMEOUT_SECS kw
          (events s)
        = (Inr (Some (outcome_of_response meth (Some directory_url)
                        (fst (serve (directory_now d0 s) ?q)))), events s @ [Sent ?q])"
    unfolding safe_request_def
    by (rule loop_responded [OF _ t]) (simp add: FAST_RETRIES_def)
  then show ?thesis
    by (simp add: scim_call_def url_users on_events_def Let_def)
qed

lemma of_char_lower_range:
  "(of_char (char_of (n + 32 :: nat)) :: nat) = (n + 32) mod 256"
  by simp

lemma py_isspace_lower_char [simp]: "py_isspace (lower_char c) = py_isspace c"
proof -
  have "(of_char c :: nat) < 256" by simp
  then show ?thesis
    unfolding py_isspace_def lower_char_def Let_def
    by (auto simp: of_char_lower_range)
qed

lemma lower_char_idem [simp]: "lower_char (lower_char c) = lower_char c"
proof -
  have "(of_char c :: nat) < 256" by simp
  then show ?thesis
    unfolding lower_char_def Let_def
    by (auto simp: of_char_lower_range)
qed

lemma py_strip_map_lower: "py_strip (py_lower s) = py_lower (py_strip s)"
  by (simp add: py_strip_def py_lower_def dropWhile_map rev_map comp_def)

lemma py_lower_idem [simp]: "py_lower (py_lower s) = py_lower s"
  by (simp add: py_lower_def)

lemma dropWhile_rev_prefix:
  "\<exists>ys. t = rev (dropWhile Q (rev t)) @ ys"
proof -
  have "rev t = takeWhile Q (rev t) @ dropWhile Q (rev t)" by simp
  then have "t = rev (dropWhile Q (rev t)) @ rev (takeWhile Q (rev t))"
    by (metis rev_append rev_rev_ident)
  then show ?thesis by blast
qed

lemma py_strip_idem [simp]: "py_strip (py_strip s) = py_strip s"
proof -
  let ?t = "dropWhile py_isspace s"
  let ?u = "rev (dropWhile py_isspace (rev ?t))"
  have a: "dropWhile py_isspace ?u = ?u"
  proof (cases "?u = []")
    case True
    then show ?thesis by (metis dropWhile.simps(1))
  next
    case False
    obtain ys where ys: "?t = ?u @ ys" using dropWhile_rev_prefix by blast
    with False have "hd ?u = hd ?t" by (metis hd_append2)
    moreover have "?t \<noteq> []" using ys False by (metis append_is_Nil_conv)
    then have "\<not> py_isspace (hd ?t)" by (rule hd_dropWhile)
    ultimately show ?thesis by (simp add: dropWhile_eq_self_iff)
  qed
  have "dropWhile py_isspace (rev ?u) = rev ?u"
    by simp
  then have b: "rev (dropWhile py_isspace (rev ?u)) = ?u"
    by (metis rev_rev_ident)
  show ?thesis
    unfolding py_strip_def a b ..
qed

lemma normalise_idem:
  "py_lower (py_strip (py_lower (py_strip x))) = py_lower (py_strip x)"
  by (simp add: py_strip_map_lower)

lemma matches_userName:
  "matches (''userName eq '' @ dquote @ e @ dquote) = (\<lambda>u. u_userName u = e)"
  by (rule ext) (auto simp: matches_def dquote_def list_ex_iff)

lemma matches_emails:
  "matches (''emails.value eq '' @ dquote @ e @ dquote) = (\<lambda>u. e \<in> set (u_emails u))"
  by (rule ext) (auto simp: matches_def dquote_def list_ex_iff)

lemma serve_list_request:
  "serve d (list_request f)
     = (json_response 200 (JObj [(''Resources'', JArr (map user_json (filter (matches f) d)))]),
        d)"
  by (simp add: serve_def list_request_def)

lemma scim_list_users_directory:
  assumes "f \<noteq> []"
  shows "scim_list_users (directory_platform d0) (Some f) s
     = (Inr (Some \<lparr>status_code = 200,
                   body = JObj [(''Resources'',
                            JArr (map user_json (filter (matches f) (directory_now d0 s))))],
                   error = None, message = None\<rparr>),
        s\<lparr>events := events s @ [Sent (list_request f)]\<rparr>)"
  using assms
  by (simp add: scim_list_users_def scim_call_directory filter_params_def Let_def
        list_request_def [symmetric] serve_list_request outcome_of_response_def
        json_response_def)

lemma directory_now_list [simp]:
  "directory_now d0 (s\<lparr>events := events s @ [Sent (list_request f)]\<rparr>) = directory_now d0 s"
  by (simp add: directory_now_def serve_list_request)

lemma directory_now_append_audit_json [simp]:
  "directory_now d0 (append_audit_json P a p i st d rc rb rp s) = directory_now d0 s"
  by (simp add: directory_now_def events_append_audit_json)

lemma directory_now_audit [simp]:
  "directory_now d0 (audit P a p i st d s) = directory_now d0 s"
  by (simp add: audit_def)

lemma first_resource_listing:
  "first_resource (Some \<lparr>status_code = 200, body = JObj [(''Resources'', JArr xs)],
                          error = None, message = None\<rparr>)
     = Inr (case xs of [] \<Rightarrow> None | x # _ \<Rightarrow> Some x)"
  by (cases xs) (simp_all add: first_resource_def py_or_def)

lemma filter_unknown:
  "\<not> known email d \<Longrightarrow> filter (\<lambda>u. u_userName u = email) d = []"
  "\<not> known email d \<Longrightarrow> filter (\<lambda>u. email \<in> set (u_emails u)) d = []"
  by (auto simp: known_def list_ex_iff filter_empty_conv)

lemma find_user_absent:
  assumes "email \<noteq> []" and "\<not> known email (directory_now d0 s)"
  shows "\<exists>s'. find_user_by_email (directory_platform d0) email s = (JNull, s')
              \<and> directory_now d0 s' = directory_now d0 s"
proof -
  define f1 where "f1 = ''userName eq '' @ dquote @ email @ dquote"
  define f2 where "f2 = ''emails.value eq '' @ dquote @ email @ dquote"
  define s1 where "s1 = s\<lparr>events := events s @ [Sent (list_request f1)]\<rparr>"
  define s2 where "s2 = s1\<lparr>events := events s1 @ [Sent (list_request f2)]\<rparr>"
  have n1: "f1 \<noteq> []" and n2: "f2 \<noteq> []" by (simp_all add: f1_def f2_def)
  have m1: "matches f1 = (\<lambda>u. u_userName u = email)"
    unfolding f1_def by (rule matches_userName)
  have m2: "matches f2 = (\<lambda>u. email \<in> set (u_emails u))"
    unfolding f2_def by (rule matches_emails)
  have d1: "directory_now d0 s1 = directory_now d0 s"
    unfolding s1_def by (rule directory_now_list)
  have d2: "directory_now d0 s2 = directory_now d0 s"
    unfolding s2_def by (simp only: directory_now_list d1)
  have 1: "scim_list_users (directory_platform d0) (Some f1) s
     = (Inr (Some \<lparr>status_code = 200, body = JObj [(''Resources'', JArr [])],
                   error = None, message = None\<rparr>), s1)"
    using scim_list_users_directory [OF n1, of d0 s] assms(2)
    by (simp add: m1 filter_unknown s1_def)
  have 2: "scim_list_users (directory_platform d0) (Some f2) s1
     = (Inr (Some \<lparr>status_code = 200, body = JObj [(''Resources'', JArr [])],
                   error = None, message = None\<rparr>), s2)"
    using scim_list_users_directory [OF n2, of d0 s1] assms(2)
    by (simp add: m2 filter_unknown s2_def d1)
  have "find_user_by_email (directory_platform d0) email s = (JNull, s2)"
    unfolding find_user_by_email_def f1_def [symmetric] f2_def [symmetric]
    using assms(1) by (simp add: 1 2 first_resource_listing)
  with d2 show ?thesis by blast
qed

lemma find_user_present:
  assumes "email \<noteq> []"
    and "filter (\<lambda>u. u_userName u = email) (directory_now d0 s) = u # us"
  shows "\<exists>s'. find_user_by_email (directory_platform d0) email s = (user_json u, s')
              \<and> directory_now d0 s' = directory_now d0 s
              \<and> grows is_get (events s) (events s')"
proof -
  define f1 where "f1 = ''userName eq '' @ dquote @ email @ dquote"
  define f2 where "f2 = ''emails.value eq '' @ dquote @ email @ dquote"
  define s1 where "s1 = s\<lparr>events := events s @ [Sent (list_request f1)]\<rparr>"
  have n1: "f1 \<noteq> []" by (simp add: f1_def)
  have m1: "matches f1 = (\<lambda>u. u_userName u = email)"
    unfolding f1_def by (rule matches_userName)
  have 1: "scim_list_users (directory_platform d0) (Some f1) s
     = (Inr (Some \<lparr>status_code = 200,
                   body = JObj [(''Resources'', JArr (map user_json (u # us)))],
                   error = None, message = None\<rparr>), s1)"
    using scim_list_users_directory [OF n1, of d0 s] assms(2)
    by (simp add: m1 s1_def)
  have "find_user_by_email (directory_platform d0) email s = (user_json u, s1)"
    unfolding find_user_by_email_def f1_def [symmetric] f2_def [symmetric]
    using assms(1) by (simp add: 1 first_resource_listing)
  moreover have "directory_now d0 s1 = directory_now d0 s"
    unfolding s1_def by (rule directory_now_list)
  moreover have "grows is_get (events s) (events s1)"
    by (simp add: s1_def grows_Sent list_request_def)
  ultimately show ?thesis by blast
qed

lemma fresh_id_nonempty: "fresh_id d \<noteq> []"
  by (simp add: fresh_id_def)

lemma length_le_foldr_max:
  "u \<in> set d \<Longrightarrow> length (u_id u) \<le> foldr max (map (\<lambda>u. length (u_id u)) d) 0"
  by (induction d) auto

lemma fresh_id_fresh: "fresh_id d \<notin> u_id ` set d"
proof
  assume "fresh_id d \<in> u_id ` set d"
  then obtain u where u: "u \<in> set d" "u_id u = fresh_id d" by auto
  from length_le_foldr_max [OF u(1)] u(2) show False
    by (simp add: fresh_id_def)
qed

lemma payload_facts:
  "dict_get (user_payload e disp) ''userName'' = Inr (JStr e)"
  "payload_emails (user_payload e disp) = [e]"
  "json (req_kwargs (create_request j)) = Some j"
  by (simp_all add: user_payload_def payload_emails_def create_request_def)

lemma serve_create_request:
  assumes "\<not> known e d"
  shows "serve d (create_request (user_payload e disp))
     = (json_response 201 (user_json \<lparr>u_id = fresh_id d, u_userName = e, u_emails = [e]\<rparr>),
        d @ [\<lparr>u_id = fresh_id d, u_userName = e, u_emails = [e]\<rparr>])"
proof -
  have "\<not> list_ex (\<lambda>u. u_userName u = e) d"
    using assms by (auto simp: known_def list_ex_iff)
  moreover have "req_url (create_request (user_payload e disp)) = Some directory_url"
    "req_method (create_request (user_payload e disp)) = ''POST''"
    by (simp_all add: create_request_def)
  ultimately show ?thesis
    by (simp add: serve_def payload_facts Let_def)
qed

lemma scim_create_user_directory:
  assumes "\<not> known e (directory_now d0 s)"
  shows "scim_create_user (directory_platform d0) (user_payload e disp) s
     = (Inr (Some \<lparr>status_code = 201,
                   body = user_json \<lparr>u_id = fresh_id (directory_now d0 s), u_userName = e,
                                      u_emails = [e]\<rparr>,
                   error = None, message = None\<rparr>),
        s\<lparr>events := events s @ [Sent (create_request (user_payload e disp))]\<rparr>)"
  by (simp add: scim_create_user_def scim_call_directory Let_def
        create_request_def [symmetric] serve_create_request [OF assms]
        outcome_of_response_def json_response_def)

lemma directory_now_create:
  assumes "\<not> known e (directory_now d0 s)"
  shows "directory_now d0 (s\<lparr>events := events s @ [Sent (create_request (user_payload e disp))]\<rparr>)
     = directory_now d0 s @ [\<lparr>u_id = fresh_id (directory_now d0 s), u_userName = e,
                               u_emails = [e]\<rparr>]"
  using serve_create_request [OF assms, of disp]
  by (simp add: directory_now_def)

lemma created_id_directory:
  "created_id P (Some \<lparr>status_code = 201, body = user_json u, error = None, message = None\<rparr>)
     = Inr (JStr (u_id u))"
  by (simp add: created_id_def user_json_def py_or_def)

lemma ensure_user_creates:
  assumes "e = py_lower (py_strip x)" and "e \<noteq> []"
    and "\<not> known e (directory_now d0 s)"
  shows "\<exists>resp s'. ensure_user (directory_platform d0) e dn s
           = (Inr \<lparr>er_existed = False, er_id = JStr (fresh_id (directory_now d0 s)),
                   er_resp = resp, er_error = None\<rparr>, s')
         \<and> directory_now d0 s'
             = directory_now d0 s @ [\<lparr>u_id = fresh_id (directory_now d0 s), u_userName = e,
                                       u_emails = [e]\<rparr>]"
proof -
  let ?P = "directory_platform d0"
  let ?D = "directory_now d0 s"
  have norm: "py_lower (py_strip e) = e"
    unfolding assms(1) by (rule normalise_idem)
  from find_user_absent [OF assms(2,3)] obtain s1 where
    f: "find_user_by_email ?P e s = (JNull, s1)" and d1: "directory_now d0 s1 = ?D"
    by blast
  define disp where "disp = py_strip (case dn of None \<Rightarrow> e
                                      | Some d \<Rightarrow> if d \<noteq> [] then d else e)"
  have k1: "\<not> known e (directory_now d0 s1)" using assms(3) d1 by simp
  note c = scim_create_user_directory [OF k1, of disp]
  note dc = directory_now_create [OF k1, of disp]
  let ?s2 = "s1\<lparr>events := events s1 @ [Sent (create_request (user_payload e disp))]\<rparr>"
  let ?resp = "Some \<lparr>status_code = 201,
                   body = user_json \<lparr>u_id = fresh_id (directory_now d0 s1), u_userName = e,
                                      u_emails = [e]\<rparr>,
                   error = None, message = None\<rparr>"
  let ?s3 = "append_audit_json ?P ''CREATE_USER'' ''user'' e ''SUCCESS'' ''created''
               (resp_code ?resp) (resp_value ?resp) (Some (user_payload e disp)) ?s2"
  have "ensure_user ?P e dn s
      = (Inr \<lparr>er_existed = False, er_id = JStr (fresh_id (directory_now d0 s1)),
              er_resp = ?resp, er_error = None\<rparr>, ?s3)"
    using assms(2)
    by (simp add: ensure_user_def norm f Let_def disp_def [symmetric] c created_id_directory)
  moreover have "directory_now d0 ?s3
             = ?D @ [\<lparr>u_id = fresh_id ?D, u_userName = e, u_emails = [e]\<rparr>]"
    using dc d1 by simp
  ultimately show ?thesis using d1 by auto
qed

text \<open>
  C1. Against the reference directory, in any state: for a row whose \<open>user_email\<close> is
  non-empty once trimmed and lower-cased, and which the directory does not know yet, the
  first \<open>create_user_handler\<close> returns status \<open>created\<close> with a non-empty id that no
  user of the directory had; the second call with the same row returns status
  \<open>skipped\<close> with the same id, and sends only \<open>GET\<close> requests.
\<close>

theorem create_user_idempotent:
  assumes "py_lower (py_strip (field r ''user_email'')) \<noteq> []"
    and "\<not> known (py_lower (py_strip (field r ''user_email''))) (directory_now d0 s)"
  shows "\<exists>i resp s1 s2.
           create_user_handler (directory_platform d0) r s
             = (Inr (JObj [(''status'', JStr ''created''), (''id'', JStr i), (''resp'', resp)]),
                s1)
         \<and> i \<noteq> [] \<and> i \<notin> u_id ` set (directory_now d0 s)
         \<and> create_user_handler (directory_platform d0) r s1
             = (Inr (JObj [(''status'', JStr ''skipped''), (''id'', JStr i)]), s2)
         \<and> grows is_get (events s1) (events s2)"
proof -
  let ?P = "directory_platform d0"
  let ?D = "directory_now d0 s"
  define e where "e = py_lower (py_strip (field r ''user_email''))"
  have ne: "e \<noteq> []" and unknown: "\<not> known e ?D"
    using assms by (simp_all add: e_def)
  define i where "i = fresh_id ?D"
  define new where "new = \<lparr>u_id = i, u_userName = e, u_emails = [e]\<rparr>"
  define dn where "dn = (if py_strip (field r ''first_name'') \<noteq> []
                            \<or> py_strip (field r ''last_name'') \<noteq> []
                         then composed_name (py_strip (field r ''first_name''))
                                (py_strip (field r ''last_name''))
                         else e)"
  from find_user_absent [OF ne unknown] obtain s0 where
    f0: "find_user_by_email ?P e s = (JNull, s0)" and d0: "directory_now d0 s0 = ?D"
    by blast
  have "\<not> known e (directory_now d0 s0)" using unknown d0 by simp
  from ensure_user_creates [OF e_def ne this, of "Some dn"] obtain resp s1 where
    en: "ensure_user ?P e (Some dn) s0
           = (Inr \<lparr>er_existed = False, er_id = JStr i, er_resp = resp, er_error = None\<rparr>, s1)"
    and d1: "directory_now d0 s1 = ?D @ [new]"
    unfolding d0 i_def new_def by blast
  have i: "i \<noteq> []" "i \<notin> u_id ` set ?D"
    unfolding i_def by (rule fresh_id_nonempty, rule fresh_id_fresh)
  have first: "create_user_handler ?P r s
      = (Inr (JObj [(''status'', JStr ''created''), (''id'', JStr i),
                    (''resp'', opt_json (resp_value resp))]), s1)"
    unfolding create_user_handler_def e_def [symmetric] Let_def dn_def [symmetric]
    using ne i(1) by (simp add: f0 en)
  have "filter (\<lambda>u. u_userName u = e) (directory_now d0 s1) = [new]"
    unfolding d1 using unknown by (simp add: filter_unknown new_def)
  from find_user_present [OF ne this] obtain s2 where
    f1: "find_user_by_email ?P e s1 = (user_json new, s2)"
    and g: "grows is_get (events s1) (events s2)"
    by blast
  let ?s3 = "audit ?P ''CREATE_USER'' ''user'' e ''SKIPPED'' ''already_exists'' s2"
  have second: "create_user_handler ?P r s1
      = (Inr (JObj [(''status'', JStr ''skipped''), (''id'', JStr i)]), ?s3)"
    unfolding create_user_handler_def e_def [symmetric] Let_def dn_def [symmetric]
    using ne by (simp add: f1 user_json_def new_def)
  have "grows is_get (events s1) (events ?s3)"
    using g grows_audit by (rule grows_trans)
  with first second i show ?thesis by blast
qed

text \<open>C1, witness: a new user row against a directory with one other user.\<close>

theorem create_user_idempotent_witness:
  "\<exists>i resp s1 s2.
     create_user_handler (directory_platform one_user) newcomer_row initial_state
       = (Inr (JObj [(''status'', JStr ''created''), (''id'', JStr i), (''resp'', resp)]), s1)
     \<and> i \<noteq> [] \<and> i \<notin> u_id ` set one_user
     \<and> create_user_handler (directory_platform one_user) newcomer_row s1
         = (Inr (JObj [(''status'', JStr ''skipped''), (''id'', JStr i)]), s2)
     \<and> list_all is_get (sent (drop (length (events s1)) (events s2)))"
proof -
  have v: "py_lower (py_strip (field newcomer_row ''user_email'')) = ''new@x.org''"
    by code_simp
  have d: "directory_now one_user initial_state = one_user"
    by (simp add: directory_now_def initial_state_def sent_def replay_def)
  have a: "py_lower (py_strip (field newcomer_row ''user_email'')) \<noteq> []"
    unfolding v by simp
  have k: "\<not> known (py_lower (py_strip (field newcomer_row ''user_email'')))
              (directory_now one_user initial_state)"
    unfolding v d by (simp add: known_def one_user_def)
  from create_user_idempotent [OF a k] show ?thesis
    unfolding d by (auto simp: grows_def)
qed

subsection \<open>Group creation\<close>

lemma url_account:
  "url_of (account_platform a0) path = Inr (''https://acct'' @ path)"
  by (simp add: url_of_def account_platform_def scripted_def rstrip_slash_def)

lemma users_path_account: "''https://acct'' @ users_path (account_platform a0) = directory_url"
  by (simp add: users_path_def account_platform_def scripted_def str_opt_def directory_url_def)

lemma groups_path_account: "''https://acct'' @ groups_path (account_platform a0) = groups_url"
  by (simp add: groups_path_def account_platform_def scripted_def str_opt_def groups_url_def)

lemma replay_account_snoc [simp]:
  "replay_account a (qs @ [q]) = snd (serve_account (replay_account a qs) q)"
  by (simp add: replay_account_def)

lemma scim_call_account:
  "scim_call (account_platform a0) meth path kw s
     = (let q = \<lparr>req_method = meth, req_url = Some (''https://acct'' @ path),
                 req_headers = [(''Authorization'', ''Bearer t''),
                                (''Content-Type'', ''application/json'')],
                 req_timeout = 12, req_kwargs = kw\<rparr>
        in (Inr (Some (outcome_of_response meth (Some (''https://acct'' @ path))
                         (fst (serve_account (account_now a0 s) q)))),
            s\<lparr>events := events s @ [Sent q]\<rparr>))"
proof -
  let ?P = "account_platform a0"
  define u where "u = ''https://acct'' @ path"
  let ?q = "\<lparr>req_method = meth, req_url = Some u,
                 req_headers = [(''Authorization'', ''Bearer t''),
                                (''Content-Type'', ''application/json'')],
                 req_timeout = 12, req_kwargs = kw\<rparr>"
  have t: "try_request ?P meth (Some u) None FAST_TIMEOUT_SECS kw (events s)
             = (Responded (fst (serve_account (account_now a0 s) ?q)), events s @ [Sent ?q])"
    by (simp add: try_request_def auth_headers_def account_platform_def scripted_def
          FAST_TIMEOUT_SECS_def account_now_def Let_def)
  have "safe_request ?P meth (Some u) FAST_RETRIES None FAST_TIMEOUT_SECS kw (events s)
        = (Inr (Some (outcome_of_response meth (Some u)
                        (fst (serve_account (account_now a0 s) ?q)))), events s @ [Sent ?q])"
    unfolding safe_request_def
    by (rule loop_responded [OF _ t]) (simp add: FAST_RETRIES_def)
  then show ?thesis
    unfolding scim_call_def url_account u_def [symmetric]
    by (simp add: on_events_def Let_def)
qed

lemma scim_call_account_users:
  "scim_call (account_platform a0) meth (users_path (account_platform a0)) kw s
     = (Inr (Some (outcome_of_response meth (Some directory_url)
                     (fst (serve_account (account_now a0 s)
                        \<lparr>req_method = meth, req_url = Some directory_url,
                         req_headers = [(''Authorization'', ''Bearer t''),
                                        (''Content-Type'', ''application/json'')],
                         req_timeout = 12, req_kwargs = kw\<rparr>)))),
        s\<lparr>events := events s @ [Sent \<lparr>req_method = meth, req_url = Some directory_url,
                         req_headers = [(''Authorization'', ''Bearer t''),
                                        (''Content-Type'', ''application/json'')],
                         req_timeout = 12, req_kwargs = kw\<rparr>]\<rparr>)"
  unfolding scim_call_account users_path_account Let_def ..

lemma scim_call_account_groups:
  "scim_call (account_platform a0) meth (groups_path (account_platform a0)) kw s
     = (Inr (Some (outcome_of_response meth (Some groups_url)
                     (fst (serve_account (account_now a0 s)
                        \<lparr>req_method = meth, req_url = Some groups_url,
                         req_headers = [(''Authorization'', ''Bearer t''),
                                        (''Content-Type'', ''application/json'')],
                         req_timeout = 12, req_kwargs = kw\<rparr>)))),
        s\<lparr>events := events s @ [Sent \<lparr>req_method = meth, req_url = Some groups_url,
                         req_headers = [(''Authorization'', ''Bearer t''),
                                        (''Content-Type'', ''application/json'')],
                         req_timeout = 12, req_kwargs = kw\<rparr>]\<rparr>)"
  unfolding scim_call_account groups_path_account Let_def ..

lemma serve_account_list_request:
  "serve_account a (list_request f)
     = (json_response 200
          (JObj [(''Resources'', JArr (map user_json (filter (matches f) (acc_users a))))]), a)"
  by (simp add: serve_account_def serve_list_request list_request_def [symmetric])
     (simp add: list_request_def)

lemma urls_differ: "groups_url \<noteq> directory_url"
  by (simp add: groups_url_def directory_url_def)

lemma serve_account_group_list_request:
  "serve_account a (group_list_request name)
     = (json_response 200
          (JObj [(''Resources'',
                  JArr (map group_json (filter (\<lambda>g. g_displayName g = name) (acc_groups a))))]),
        a)"
proof -
  have "named (''displayName eq '' @ dquote @ name @ dquote) = (\<lambda>g. g_displayName g = name)"
    by (rule ext) (auto simp: named_def dquote_def)
  then show ?thesis
    by (simp add: serve_account_def group_list_request_def urls_differ)
qed

lemma scim_list_users_account:
  assumes "f \<noteq> []"
  shows "scim_list_users (account_platform a0) (Some f) s
     = (Inr (Some \<lparr>status_code = 200,
                   body = JObj [(''Resources'',
                            JArr (map user_json
                                    (filter (matches f) (acc_users (account_now a0 s)))))],
                   error = None, message = None\<rparr>),
        s\<lparr>events := events s @ [Sent (list_request f)]\<rparr>)"
  using assms
  by (simp add: scim_list_users_def scim_call_account_users filter_params_def
        list_request_def [symmetric] serve_account_list_request outcome_of_response_def
        json_response_def)

lemma account_now_list [simp]:
  "account_now a0 (s\<lparr>events := events s @ [Sent (list_request f)]\<rparr>) = account_now a0 s"
  by (simp add: account_now_def serve_account_list_request)

lemma account_now_group_list [simp]:
  "account_now a0 (s\<lparr>events := events s @ [Sent (group_list_request n)]\<rparr>) = account_now a0 s"
  by (simp add: account_now_def serve_account_group_list_request)

lemma account_now_append_audit_json [simp]:
  "account_now a0 (append_audit_json P a p i st d rc rb rp s) = account_now a0 s"
  by (simp add: account_now_def events_append_audit_json)

lemma account_now_audit [simp]:
  "account_now a0 (audit P a p i st d s) = account_now a0 s"
  by (simp add: audit_def)

lemma scim_list_groups_account:
  "scim_list_groups (account_platform a0) (Some (''displayName eq '' @ dquote @ name @ dquote)) s
     = (Inr (Some \<lparr>status_code = 200,
                   body = JObj [(''Resources'',
                            JArr (map group_json
                                    (filter (\<lambda>g. g_displayName g = name)
                                       (acc_groups (account_now a0 s)))))],
                   error = None, message = None\<rparr>),
        s\<lparr>events := events s @ [Sent (group_list_request name)]\<rparr>)"
proof -
  define f where "f = ''displayName eq '' @ dquote @ name @ dquote"
  have n: "f \<noteq> []" by (simp add: f_def)
  have q: "\<lparr>req_method = ''GET'', req_url = Some groups_url,
             req_headers = [(''Authorization'', ''Bearer t''),
                            (''Content-Type'', ''application/json'')],
             req_timeout = 12, req_kwargs = \<lparr>params = Some [(''filter'', f)], json = None\<rparr>\<rparr>
           = group_list_request name"
    unfolding f_def group_list_request_def ..
  show ?thesis
    unfolding f_def [symmetric] scim_list_groups_def scim_call_account_groups
    using n
    by (simp add: filter_params_def q serve_account_group_list_request
          outcome_of_response_def json_response_def)
qed

lemma find_user_account:
  assumes "email \<noteq> []"
  shows "\<exists>s'. find_user_by_email (account_platform a0) email s
                = ((case first_user (acc_users (account_now a0 s)) email of
                      None \<Rightarrow> JNull | Some u \<Rightarrow> user_json u), s')
              \<and> account_now a0 s' = account_now a0 s
              \<and> grows is_get (events s) (events s')"
proof -
  let ?D = "acc_users (account_now a0 s)"
  define f1 where "f1 = ''userName eq '' @ dquote @ email @ dquote"
  define f2 where "f2 = ''emails.value eq '' @ dquote @ email @ dquote"
  define s1 where "s1 = s\<lparr>events := events s @ [Sent (list_request f1)]\<rparr>"
  define s2 where "s2 = s1\<lparr>events := events s1 @ [Sent (list_request f2)]\<rparr>"
  have n1: "f1 \<noteq> []" and n2: "f2 \<noteq> []" by (simp_all add: f1_def f2_def)
  have m1: "matches f1 = (\<lambda>u. u_userName u = email)"
    unfolding f1_def by (rule matches_userName)
  have m2: "matches f2 = (\<lambda>u. email \<in> set (u_emails u))"
    unfolding f2_def by (rule matches_emails)
  have d1: "account_now a0 s1 = account_now a0 s"
    unfolding s1_def by (rule account_now_list)
  have d2: "account_now a0 s2 = account_now a0 s"
    unfolding s2_def by (simp only: account_now_list d1)
  have g1: "grows is_get (events s) (events s1)"
    by (simp add: s1_def grows_Sent list_request_def)
  have "grows is_get (events s1) (events s2)"
    by (simp add: s2_def grows_Sent list_request_def)
  with g1 have g2: "grows is_get (events s) (events s2)"
    by (rule grows_trans)
  have 1: "scim_list_users (account_platform a0) (Some f1) s
     = (Inr (Some \<lparr>status_code = 200,
                   body = JObj [(''Resources'',
                            JArr (map user_json (filter (\<lambda>u. u_userName u = email) ?D)))],
                   error = None, message = None\<rparr>), s1)"
    using scim_list_users_account [OF n1, of a0 s]
    by (simp add: m1 s1_def)
  have 2: "scim_list_users (account_platform a0) (Some f2) s1
     = (Inr (Some \<lparr>status_code = 200,
                   body = JObj [(''Resources'',
                            JArr (map user_json (filter (\<lambda>u. email \<in> set (u_emails u)) ?D)))],
                   error = None, message = None\<rparr>), s2)"
    using scim_list_users_account [OF n2, of a0 s1]
    by (simp add: m2 s2_def d1)
  show ?thesis
  proof (cases "filter (\<lambda>u. u_userName u = email) ?D")
    case (Cons u us)
    have "find_user_by_email (account_platform a0) email s = (user_json u, s1)"
      unfolding find_user_by_email_def f1_def [symmetric] f2_def [symmetric]
      using assms by (simp add: 1 Cons first_resource_listing)
    moreover have "first_user ?D email = Some u"
      by (simp add: first_user_def Cons)
    ultimately show ?thesis using d1 g1 by auto
  next
    case Nil
    show ?thesis
    proof (cases "filter (\<lambda>u. email \<in> set (u_emails u)) ?D")
      case (Cons u us)
      have "find_user_by_email (account_platform a0) email s = (user_json u, s2)"
        unfolding find_user_by_email_def f1_def [symmetric] f2_def [symmetric]
        using assms by (simp add: 1 2 Nil Cons first_resource_listing)
      moreover have "first_user ?D email = Some u"
        by (simp add: first_user_def Nil Cons)
      ultimately show ?thesis using d2 g2 by auto
    next
      case Nil2: Nil
      have "find_user_by_email (account_platform a0) email s = (JNull, s2)"
        unfolding find_user_by_email_def f1_def [symmetric] f2_def [symmetric]
        using assms by (simp add: 1 2 Nil Nil2 first_resource_listing)
      moreover have "first_user ?D email = None"
        by (simp add: first_user_def Nil Nil2)
      ultimately show ?thesis using d2 g2 by auto
    qed
  qed
qed

lemma get_user_id_account:
  assumes "m \<noteq> []" and "py_lower (py_strip m) = m"
  shows "\<exists>s'. get_user_id_by_email (account_platform a0) m s
                = (Inr (case first_user (acc_users (account_now a0 s)) m of
                          None \<Rightarrow> JNull | Some u \<Rightarrow> JStr (u_id u)), s')
              \<and> account_now a0 s' = account_now a0 s
              \<and> grows is_get (events s) (events s')"
proof -
  from find_user_account [OF assms(1), of a0 s] obtain s' where
    f: "find_user_by_email (account_platform a0) m s
          = ((case first_user (acc_users (account_now a0 s)) m of
                None \<Rightarrow> JNull | Some u \<Rightarrow> user_json u), s')"
    and d: "account_now a0 s' = account_now a0 s"
    and g: "grows is_get (events s) (events s')"
    by blast
  have "get_user_id_by_email (account_platform a0) m s
          = (Inr (case first_user (acc_users (account_now a0 s)) m of
                    None \<Rightarrow> JNull | Some u \<Rightarrow> JStr (u_id u)), s')"
    by (cases "first_user (acc_users (account_now a0 s)) m")
       (simp_all add: get_user_id_by_email_def assms(2) f user_json_def)
  with d g show ?thesis by blast
qed

lemma truthy_resolved:
  "truthy (case first_user d m of None \<Rightarrow> JNull | Some u \<Rightarrow> JStr (u_id u))
     = (\<not> unresolved d m)"
  by (cases "first_user d m") (simp_all add: unresolved_def)

lemma resolve_members_account:
  assumes "\<forall>m\<in>set ms. m \<noteq> [] \<and> py_lower (py_strip m) = m"
  shows "\<exists>objs' s'. resolve_members (account_platform a0) ms objs missing s
                = (Inr (objs', missing
                          @ filter (unresolved (acc_users (account_now a0 s))) ms), s')
              \<and> account_now a0 s' = account_now a0 s
              \<and> grows is_get (events s) (events s')"
  using assms
proof (induction ms arbitrary: objs missing s)
  case Nil
  then show ?case by simp
next
  case (Cons m ms)
  let ?D = "acc_users (account_now a0 s)"
  let ?uid = "case first_user ?D m of None \<Rightarrow> JNull | Some u \<Rightarrow> JStr (u_id u)"
  from Cons.prems have m: "m \<noteq> []" "py_lower (py_strip m) = m"
    and ms: "\<forall>m\<in>set ms. m \<noteq> [] \<and> py_lower (py_strip m) = m"
    by auto
  from get_user_id_account [OF m, of a0 s] obtain s1 where
    gu: "get_user_id_by_email (account_platform a0) m s = (Inr ?uid, s1)"
    and d1: "account_now a0 s1 = account_now a0 s"
    and g1: "grows is_get (events s) (events s1)"
    by blast
  show ?case
  proof (cases "unresolved ?D m")
    case True
    from Cons.IH [OF ms, of objs "missing @ [m]" s1] obtain objs' s' where
      r: "resolve_members (account_platform a0) ms objs (missing @ [m]) s1
            = (Inr (objs', (missing @ [m]) @ filter (unresolved ?D) ms), s')"
      and d: "account_now a0 s' = account_now a0 s"
      and g: "grows is_get (events s1) (events s')"
      unfolding d1 by blast
    have "resolve_members (account_platform a0) (m # ms) objs missing s
            = (Inr (objs', missing @ filter (unresolved ?D) (m # ms)), s')"
      using True by (simp add: gu truthy_resolved r)
    moreover have "grows is_get (events s) (events s')"
      using g1 g by (rule grows_trans)
    ultimately show ?thesis using d by blast
  next
    case False
    from Cons.IH [OF ms, of "objs @ [JObj [(''value'', ?uid)]]" missing s1] obtain objs' s' where
      r: "resolve_members (account_platform a0) ms (objs @ [JObj [(''value'', ?uid)]]) missing s1
            = (Inr (objs', missing @ filter (unresolved ?D) ms), s')"
      and d: "account_now a0 s' = account_now a0 s"
      and g: "grows is_get (events s1) (events s')"
      unfolding d1 by blast
    have "resolve_members (account_platform a0) (m # ms) objs missing s
            = (Inr (objs', missing @ filter (unresolved ?D) (m # ms)), s')"
      using False by (simp add: gu truthy_resolved r)
    moreover have "grows is_get (events s) (events s')"
      using g1 g by (rule grows_trans)
    ultimately show ?thesis using d by blast
  qed
qed

lemma py_lower_eq_Nil [simp]: "(py_lower s = []) = (s = [])"
  by (simp add: py_lower_def)

lemma split_members_normal:
  "m \<in> set (split_members csv) \<Longrightarrow> m \<noteq> [] \<and> py_lower (py_strip m) = m"
  by (auto simp: split_members_def split_clean_def Let_def normalise_idem split: if_splits)

lemma construct_group_name_nonempty: "construct_group_name r = Inr name \<Longrightarrow> name \<noteq> []"
  by (auto simp: construct_group_name_def Let_def split: if_splits)

lemma find_group_account:
  assumes "name \<noteq> []"
  shows "find_group_by_display_name (account_platform a0) name s
     = ((case filter (\<lambda>g. g_displayName g = name) (acc_groups (account_now a0 s)) of
           [] \<Rightarrow> JNull | g # gs \<Rightarrow> group_json g),
        s\<lparr>events := events s @ [Sent (group_list_request name)]\<rparr>)"
  unfolding find_group_by_display_name_def scim_list_groups_account
  using assms
  by (cases "filter (\<lambda>g. g_displayName g = name) (acc_groups (account_now a0 s))")
     (simp_all add: first_resource_listing)

text \<open>
  C3, counterexample. The account has the group the row names. With the directory
  answering, \<open>create_group_handler\<close> fails with a \<open>ValueError\<close>: the code has no
  \<open>ConflictError\<close>. With the groups listing out of service (a 503), the failed
  existence check is taken for \<open>no such group\<close>: the creating \<open>POST\<close> goes out, a
  mutating call for a group that exists, and only the directory's refusal ends the call.
\<close>

theorem create_group_counterexample:
  "map g_displayName (acc_groups readers_account) = [''nprod_TMFinance_App1_readers'']
   \<and> construct_group_name memberless_row = Inr ''nprod_TMFinance_App1_readers''
   \<and> fst (create_group_handler (account_platform readers_account) memberless_row initial_state)
       = Inl (ValueError ''Group already exists. Use add_to_group to add members.'')
   \<and> fst (create_group_handler (listing_unavailable readers_account) memberless_row
             initial_state)
       = Inl (RuntimeError ''{}'')
   \<and> map req_method
         (sent (events (snd (create_group_handler (listing_unavailable readers_account)
                               memberless_row initial_state))))
       = [''GET'', ''POST'']"
  by code_simp

text \<open>
  C3, amended. Against the reference directory, in any state, for a row whose group
  name can be constructed. If the directory has a group with that display name,
  \<open>create_group_handler\<close> raises the \<open>ValueError\<close> \<open>Group already exists. Use
  add_to_group to add members.\<close>, the one request it sends is the existence check,
  and the directory is as before. If the directory has no such group and at least one
  member email of the row is unresolved there, it raises the \<open>ValueError\<close> that lists
  the unresolved members in order, it sends \<open>GET\<close> requests only, and the directory
  is as before: no group is created.
\<close>

theorem create_group_fails_atomically:
  assumes "construct_group_name r = Inr name"
  shows "(list_ex (\<lambda>g. g_displayName g = name) (acc_groups (account_now a0 s)) \<longrightarrow>
            (\<exists>s'. create_group_handler (account_platform a0) r s
                     = (Inl (ValueError ''Group already exists. Use add_to_group to add members.''),
                        s')
                 \<and> sent (events s') = sent (events s) @ [group_list_request name]
                 \<and> account_now a0 s' = account_now a0 s))
       \<and> (\<not> list_ex (\<lambda>g. g_displayName g = name) (acc_groups (account_now a0 s))
            \<and> list_ex (unresolved (acc_users (account_now a0 s)))
                 (split_members (field r ''group_members'')) \<longrightarrow>
            (\<exists>s'. create_group_handler (account_platform a0) r s
                     = (Inl (ValueError
                              (''Cannot create group. These users do not exist: ''
                               @ py_join '', ''
                                   (filter (unresolved (acc_users (account_now a0 s)))
                                      (split_members (field r ''group_members''))))), s')
                 \<and> grows is_get (events s) (events s')
                 \<and> account_now a0 s' = account_now a0 s))"
proof (intro conjI impI)
  let ?P = "account_platform a0"
  let ?A = "account_now a0 s"
  let ?s1 = "s\<lparr>events := events s @ [Sent (group_list_request name)]\<rparr>"
  have ne: "name \<noteq> []"
    using assms by (rule construct_group_name_nonempty)
  note fg = find_group_account [OF ne, of a0 s]
  {
    assume "list_ex (\<lambda>g. g_displayName g = name) (acc_groups ?A)"
    then obtain g gs where
      c: "filter (\<lambda>g. g_displayName g = name) (acc_groups ?A) = g # gs"
      by (cases "filter (\<lambda>g. g_displayName g = name) (acc_groups ?A)")
         (auto simp: list_ex_iff filter_empty_conv)
    let ?s2 = "audit ?P ''CREATE_GROUP'' ''group'' name ''FAILED''
                 ''Group already exists. Use add_to_group to add members.'' ?s1"
    have "create_group_handler ?P r s
        = (Inl (ValueError ''Group already exists. Use add_to_group to add members.''), ?s2)"
      using ne by (simp add: create_group_handler_def assms fg c group_json_def)
    moreover have "sent (events ?s2) = sent (events s) @ [group_list_request name]"
      by (simp add: events_audit sent_def)
    moreover have "account_now a0 ?s2 = ?A"
      by simp
    ultimately show "\<exists>s'. create_group_handler ?P r s
                     = (Inl (ValueError ''Group already exists. Use add_to_group to add members.''),
                        s')
                 \<and> sent (events s') = sent (events s) @ [group_list_request name]
                 \<and> account_now a0 s' = ?A"
      by blast
  }
  {
    let ?ms = "split_members (field r ''group_members'')"
    let ?missing = "filter (unresolved (acc_users ?A)) ?ms"
    let ?msg = "''Cannot create group. These users do not exist: '' @ py_join '', '' ?missing"
    assume a: "\<not> list_ex (\<lambda>g. g_displayName g = name) (acc_groups ?A)
            \<and> list_ex (unresolved (acc_users ?A)) ?ms"
    then have c: "filter (\<lambda>g. g_displayName g = name) (acc_groups ?A) = []"
      by (auto simp: list_ex_iff filter_empty_conv)
    from a have miss: "?missing \<noteq> []"
      by (auto simp: list_ex_iff filter_empty_conv)
    have d1: "account_now a0 ?s1 = ?A" by simp
    have g1: "grows is_get (events s) (events ?s1)"
      by (simp add: grows_Sent group_list_request_def)
    have "\<forall>m\<in>set ?ms. m \<noteq> [] \<and> py_lower (py_strip m) = m"
      using split_members_normal by blast
    from resolve_members_account [OF this, of a0 "[]" "[]" ?s1] obtain objs s2 where
      rm: "resolve_members ?P ?ms [] [] ?s1 = (Inr (objs, ?missing), s2)"
      and d2: "account_now a0 s2 = ?A"
      and g2: "grows is_get (events ?s1) (events s2)"
      unfolding d1 by auto
    let ?s3 = "audit ?P ''CREATE_GROUP'' ''group'' name ''FAILED'' ?msg s2"
    have "create_group_handler ?P r s = (Inl (ValueError ?msg), ?s3)"
      using ne miss by (simp add: create_group_handler_def assms fg c rm Let_def)
    moreover have "grows is_get (events s) (events ?s3)"
      using g1 g2 grows_audit by (meson grows_trans)
    moreover have "account_now a0 ?s3 = ?A"
      using d2 by simp
    ultimately show "\<exists>s'. create_group_handler ?P r s = (Inl (ValueError ?msg), s')
                 \<and> grows is_get (events s) (events s')
                 \<and> account_now a0 s' = ?A"
      by blast
  }
qed

text \<open>
  C3, amended, witness: a row with the members \<open>a@x.org\<close> and \<open>Ghost@x.org\<close>,
  against an account that has the group, and against one that has no group and knows
  only \<open>a@x.org\<close>.
\<close>

theorem create_group_fails_atomically_witness:
  "(\<exists>s'. create_group_handler (account_platform readers_account) readers_row initial_state
            = (Inl (ValueError ''Group already exists. Use add_to_group to add members.''), s')
        \<and> sent (events s') = [group_list_request ''nprod_TMFinance_App1_readers'']
        \<and> account_now readers_account s' = readers_account)
   \<and> (\<exists>s'. create_group_handler (account_platform no_groups_account) readers_row initial_state
            = (Inl (ValueError ''Cannot create group. These users do not exist: ghost@x.org''),
               s')
        \<and> list_all is_get (sent (events s'))
        \<and> account_now no_groups_account s' = no_groups_account)"
proof -
  have n: "construct_group_name readers_row = Inr ''nprod_TMFinance_App1_readers''"
    by code_simp
  have now: "account_now a initial_state = a" for a
    by (simp add: account_now_def initial_state_def sent_def replay_account_def)
  have e: "events initial_state = []"
    by (simp add: initial_state_def)
  have h1: "list_ex (\<lambda>g. g_displayName g = ''nprod_TMFinance_App1_readers'')
              (acc_groups readers_account)"
    by (simp add: readers_account_def)
  have h2: "\<not> list_ex (\<lambda>g. g_displayName g = ''nprod_TMFinance_App1_readers'')
                (acc_groups no_groups_account)
            \<and> list_ex (unresolved (acc_users no_groups_account))
                 (split_members (field readers_row ''group_members''))"
    by code_simp
  have ms: "''Cannot create group. These users do not exist: ''
              @ py_join '', '' (filter (unresolved (acc_users no_groups_account))
                                  (split_members (field readers_row ''group_members'')))
            = ''Cannot create group. These users do not exist: ghost@x.org''"
    by code_simp
  note t1 = create_group_fails_atomically [OF n, of readers_account initial_state]
  note t2 = create_group_fails_atomically [OF n, of no_groups_account initial_state]
  from t1 h1 have 1: "\<exists>s'. create_group_handler (account_platform readers_account) readers_row
                             initial_state
            = (Inl (ValueError ''Group already exists. Use add_to_group to add members.''), s')
        \<and> sent (events s') = [group_list_request ''nprod_TMFinance_App1_readers'']
        \<and> account_now readers_account s' = readers_account"
    unfolding now e by (simp add: sent_def)
  from t2 h2 have 2: "\<exists>s'. create_group_handler (account_platform no_groups_account) readers_row
                             initial_state
            = (Inl (ValueError ''Cannot create group. These users do not exist: ghost@x.org''),
               s')
        \<and> list_all is_get (sent (events s'))
        \<and> account_now no_groups_account s' = no_groups_account"
    unfolding now e ms by (auto simp: grows_def)
  from 1 2 show ?thesis by blast
qed


end
